theory Spec2Isabelle
  imports Complex_Main
begin

section \<open>Text\<close>

text \<open>
  A Python string is the list of its code points, integers from 0 to \<open>0x10FFFF\<close>. The
  character data behind \<open>str.strip\<close>, \<open>str.upper\<close> and \<open>str.lower\<close> are those of
  Unicode 14.0.0, the version CPython 3.11 carries.
\<close>

type_synonym pystr = "int list"

text \<open>A literal of the source all of whose characters are ASCII.\<close>

definition ascii :: "string \<Rightarrow> pystr" where
  "ascii s = map of_char s"

text \<open>\<open>str.isspace\<close> on one character; \<open>str.strip()\<close> removes these at both ends.\<close>

definition py_isspace :: "int \<Rightarrow> bool" where
  "py_isspace c =
     ((9 \<le> c \<and> c \<le> 13) \<or> (28 \<le> c \<and> c \<le> 32) \<or> c = 0x85 \<or> c = 0xA0 \<or> c = 0x1680 \<or>
      (0x2000 \<le> c \<and> c \<le> 0x200A) \<or> c = 0x2028 \<or> c = 0x2029 \<or> c = 0x202F \<or> c = 0x205F \<or>
      c = 0x3000)"

definition py_strip :: "pystr \<Rightarrow> pystr" where
  "py_strip s = rev (dropWhile py_isspace (rev (dropWhile py_isspace s)))"

text \<open>
  The case mappings. A character with an upper-case form of several characters is listed
  in \<open>upper_special\<close>; the others that change are in \<open>upper_ranges\<close>, where
  \<open>(lo, hi, step, offset)\<close> stands for the characters \<open>lo, lo + step, ...\<close> up to \<open>hi\<close>,
  each mapped to itself plus \<open>offset\<close>. Likewise for lower case. Both lists are in
  increasing order, so a search stops at the first entry beyond the character.
\<close>

type_synonym case_range = "int \<times> int \<times> int \<times> int"

definition upper_ranges :: "case_range list" where
  "upper_ranges =
     [(97, 122, 1, -32), (181, 181, 1, 743), (224, 246, 1, -32), (248, 254, 1, -32),
      (255, 255, 1, 121), (257, 303, 2, -1), (305, 305, 1, -232), (307, 311, 2, -1),
      (314, 328, 2, -1), (331, 375, 2, -1), (378, 382, 2, -1), (383, 383, 1, -300),
      (384, 384, 1, 195), (387, 389, 2, -1), (392, 392, 1, -1), (396, 396, 1, -1),
      (402, 402, 1, -1), (405, 405, 1, 97), (409, 409, 1, -1), (410, 410, 1, 163),
      (414, 414, 1, 130), (417, 421, 2, -1), (424, 424, 1, -1), (429, 429, 1, -1),
      (432, 432, 1, -1), (436, 438, 2, -1), (441, 441, 1, -1), (445, 445, 1, -1),
      (447, 447, 1, 56), (453, 453, 1, -1), (454, 454, 1, -2), (456, 456, 1, -1),
      (457, 457, 1, -2), (459, 459, 1, -1), (460, 460, 1, -2), (462, 476, 2, -1),
      (477, 477, 1, -79), (479, 495, 2, -1), (498, 498, 1, -1), (499, 499, 1, -2),
      (501, 501, 1, -1), (505, 543, 2, -1), (547, 563, 2, -1), (572, 572, 1, -1),
      (575, 576, 1, 10815), (578, 578, 1, -1), (583, 591, 2, -1), (592, 592, 1, 10783),
      (593, 593, 1, 10780), (594, 594, 1, 10782), (595, 595, 1, -210), (596, 596, 1, -206),
      (598, 599, 1, -205), (601, 601, 1, -202), (603, 603, 1, -203), (604, 604, 1, 42319),
      (608, 608, 1, -205), (609, 609, 1, 42315), (611, 611, 1, -207), (613, 613, 1, 42280),
      (614, 614, 1, 42308), (616, 616, 1, -209), (617, 617, 1, -211), (618, 618, 1, 42308),
      (619, 619, 1, 10743), (620, 620, 1, 42305), (623, 623, 1, -211), (625, 625, 1, 10749),
      (626, 626, 1, -213), (629, 629, 1, -214), (637, 637, 1, 10727), (640, 640, 1, -218),
      (642, 642, 1, 42307), (643, 643, 1, -218), (647, 647, 1, 42282), (648, 648, 1, -218),
      (649, 649, 1, -69), (650, 651, 1, -217), (652, 652, 1, -71), (658, 658, 1, -219),
      (669, 669, 1, 42261), (670, 670, 1, 42258), (837, 837, 1, 84), (881, 883, 2, -1),
      (887, 887, 1, -1), (891, 893, 1, 130), (940, 940, 1, -38), (941, 943, 1, -37),
      (945, 961, 1, -32), (962, 962, 1, -31), (963, 971, 1, -32), (972, 972, 1, -64),
      (973, 974, 1, -63), (976, 976, 1, -62), (977, 977, 1, -57), (981, 981, 1, -47),
      (982, 982, 1, -54), (983, 983, 1, -8), (985, 1007, 2, -1), (1008, 1008, 1, -86),
      (1009, 1009, 1, -80), (1010, 1010, 1, 7), (1011, 1011, 1, -116), (1013, 1013, 1, -96),
      (1016, 1016, 1, -1), (1019, 1019, 1, -1), (1072, 1103, 1, -32), (1104, 1119, 1, -80),
      (1121, 1153, 2, -1), (1163, 1215, 2, -1), (1218, 1230, 2, -1), (1231, 1231, 1, -15),
      (1233, 1327, 2, -1), (1377, 1414, 1, -48), (4304, 4346, 1, 3008), (4349, 4351, 1, 3008),
      (5112, 5117, 1, -8), (7296, 7296, 1, -6254), (7297, 7297, 1, -6253),
      (7298, 7298, 1, -6244), (7299, 7300, 1, -6242), (7301, 7301, 1, -6243),
      (7302, 7302, 1, -6236), (7303, 7303, 1, -6181), (7304, 7304, 1, 35266),
      (7545, 7545, 1, 35332), (7549, 7549, 1, 3814), (7566, 7566, 1, 35384),
      (7681, 7829, 2, -1), (7835, 7835, 1, -59), (7841, 7935, 2, -1), (7936, 7943, 1, 8),
      (7952, 7957, 1, 8), (7968, 7975, 1, 8), (7984, 7991, 1, 8), (8000, 8005, 1, 8),
      (8017, 8023, 2, 8), (8032, 8039, 1, 8), (8048, 8049, 1, 74), (8050, 8053, 1, 86),
      (8054, 8055, 1, 100), (8056, 8057, 1, 128), (8058, 8059, 1, 112), (8060, 8061, 1, 126),
      (8112, 8113, 1, 8), (8126, 8126, 1, -7205), (8144, 8145, 1, 8), (8160, 8161, 1, 8),
      (8165, 8165, 1, 7), (8526, 8526, 1, -28), (8560, 8575, 1, -16), (8580, 8580, 1, -1),
      (9424, 9449, 1, -26), (11312, 11359, 1, -48), (11361, 11361, 1, -1),
      (11365, 11365, 1, -10795), (11366, 11366, 1, -10792), (11368, 11372, 2, -1),
      (11379, 11379, 1, -1), (11382, 11382, 1, -1), (11393, 11491, 2, -1),
      (11500, 11502, 2, -1), (11507, 11507, 1, -1), (11520, 11557, 1, -7264),
      (11559, 11559, 1, -7264), (11565, 11565, 1, -7264), (42561, 42605, 2, -1),
      (42625, 42651, 2, -1), (42787, 42799, 2, -1), (42803, 42863, 2, -1),
      (42874, 42876, 2, -1), (42879, 42887, 2, -1), (42892, 42892, 1, -1),
      (42897, 42899, 2, -1), (42900, 42900, 1, 48), (42903, 42921, 2, -1),
      (42933, 42947, 2, -1), (42952, 42954, 2, -1), (42961, 42961, 1, -1),
      (42967, 42969, 2, -1), (42998, 42998, 1, -1), (43859, 43859, 1, -928),
      (43888, 43967, 1, -38864), (65345, 65370, 1, -32), (66600, 66639, 1, -40),
      (66776, 66811, 1, -40), (66967, 66977, 1, -39), (66979, 66993, 1, -39),
      (66995, 67001, 1, -39), (67003, 67004, 1, -39), (68800, 68850, 1, -64),
      (71872, 71903, 1, -32), (93792, 93823, 1, -32), (125218, 125251, 1, -34)]"

definition upper_special :: "(int \<times> int list) list" where
  "upper_special =
     [(223, [83, 83]), (329, [700, 78]), (496, [74, 780]), (912, [921, 776, 769]),
      (944, [933, 776, 769]), (1415, [1333, 1362]), (7830, [72, 817]), (7831, [84, 776]),
      (7832, [87, 778]), (7833, [89, 778]), (7834, [65, 702]), (8016, [933, 787]),
      (8018, [933, 787, 768]), (8020, [933, 787, 769]), (8022, [933, 787, 834]),
      (8064, [7944, 921]), (8065, [7945, 921]), (8066, [7946, 921]), (8067, [7947, 921]),
      (8068, [7948, 921]), (8069, [7949, 921]), (8070, [7950, 921]), (8071, [7951, 921]),
      (8072, [7944, 921]), (8073, [7945, 921]), (8074, [7946, 921]), (8075, [7947, 921]),
      (8076, [7948, 921]), (8077, [7949, 921]), (8078, [7950, 921]), (8079, [7951, 921]),
      (8080, [7976, 921]), (8081, [7977, 921]), (8082, [7978, 921]), (8083, [7979, 921]),
      (8084, [7980, 921]), (8085, [7981, 921]), (8086, [7982, 921]), (8087, [7983, 921]),
      (8088, [7976, 921]), (8089, [7977, 921]), (8090, [7978, 921]), (8091, [7979, 921]),
      (8092, [7980, 921]), (8093, [7981, 921]), (8094, [7982, 921]), (8095, [7983, 921]),
      (8096, [8040, 921]), (8097, [8041, 921]), (8098, [8042, 921]), (8099, [8043, 921]),
      (8100, [8044, 921]), (8101, [8045, 921]), (8102, [8046, 921]), (8103, [8047, 921]),
      (8104, [8040, 921]), (8105, [8041, 921]), (8106, [8042, 921]), (8107, [8043, 921]),
      (8108, [8044, 921]), (8109, [8045, 921]), (8110, [8046, 921]), (8111, [8047, 921]),
      (8114, [8122, 921]), (8115, [913, 921]), (8116, [902, 921]), (8118, [913, 834]),
      (8119, [913, 834, 921]), (8124, [913, 921]), (8130, [8138, 921]), (8131, [919, 921]),
      (8132, [905, 921]), (8134, [919, 834]), (8135, [919, 834, 921]), (8140, [919, 921]),
      (8146, [921, 776, 768]), (8147, [921, 776, 769]), (8150, [921, 834]),
      (8151, [921, 776, 834]), (8162, [933, 776, 768]), (8163, [933, 776, 769]),
      (8164, [929, 787]), (8166, [933, 834]), (8167, [933, 776, 834]), (8178, [8186, 921]),
      (8179, [937, 921]), (8180, [911, 921]), (8182, [937, 834]), (8183, [937, 834, 921]),
      (8188, [937, 921]), (64256, [70, 70]), (64257, [70, 73]), (64258, [70, 76]),
      (64259, [70, 70, 73]), (64260, [70, 70, 76]), (64261, [83, 84]), (64262, [83, 84]),
      (64275, [1348, 1350]), (64276, [1348, 1333]), (64277, [1348, 1339]),
      (64278, [1358, 1350]), (64279, [1348, 1341])]"

definition lower_ranges :: "case_range list" where
  "lower_ranges =
     [(65, 90, 1, 32), (192, 214, 1, 32), (216, 222, 1, 32), (256, 302, 2, 1),
      (306, 310, 2, 1), (313, 327, 2, 1), (330, 374, 2, 1), (376, 376, 1, -121),
      (377, 381, 2, 1), (385, 385, 1, 210), (386, 388, 2, 1), (390, 390, 1, 206),
      (391, 391, 1, 1), (393, 394, 1, 205), (395, 395, 1, 1), (398, 398, 1, 79),
      (399, 399, 1, 202), (400, 400, 1, 203), (401, 401, 1, 1), (403, 403, 1, 205),
      (404, 404, 1, 207), (406, 406, 1, 211), (407, 407, 1, 209), (408, 408, 1, 1),
      (412, 412, 1, 211), (413, 413, 1, 213), (415, 415, 1, 214), (416, 420, 2, 1),
      (422, 422, 1, 218), (423, 423, 1, 1), (425, 425, 1, 218), (428, 428, 1, 1),
      (430, 430, 1, 218), (431, 431, 1, 1), (433, 434, 1, 217), (435, 437, 2, 1),
      (439, 439, 1, 219), (440, 440, 1, 1), (444, 444, 1, 1), (452, 452, 1, 2),
      (453, 453, 1, 1), (455, 455, 1, 2), (456, 456, 1, 1), (458, 458, 1, 2), (459, 475, 2, 1),
      (478, 494, 2, 1), (497, 497, 1, 2), (498, 500, 2, 1), (502, 502, 1, -97),
      (503, 503, 1, -56), (504, 542, 2, 1), (544, 544, 1, -130), (546, 562, 2, 1),
      (570, 570, 1, 10795), (571, 571, 1, 1), (573, 573, 1, -163), (574, 574, 1, 10792),
      (577, 577, 1, 1), (579, 579, 1, -195), (580, 580, 1, 69), (581, 581, 1, 71),
      (582, 590, 2, 1), (880, 882, 2, 1), (886, 886, 1, 1), (895, 895, 1, 116),
      (902, 902, 1, 38), (904, 906, 1, 37), (908, 908, 1, 64), (910, 911, 1, 63),
      (913, 929, 1, 32), (931, 939, 1, 32), (975, 975, 1, 8), (984, 1006, 2, 1),
      (1012, 1012, 1, -60), (1015, 1015, 1, 1), (1017, 1017, 1, -7), (1018, 1018, 1, 1),
      (1021, 1023, 1, -130), (1024, 1039, 1, 80), (1040, 1071, 1, 32), (1120, 1152, 2, 1),
      (1162, 1214, 2, 1), (1216, 1216, 1, 15), (1217, 1229, 2, 1), (1232, 1326, 2, 1),
      (1329, 1366, 1, 48), (4256, 4293, 1, 7264), (4295, 4295, 1, 7264), (4301, 4301, 1, 7264),
      (5024, 5103, 1, 38864), (5104, 5109, 1, 8), (7312, 7354, 1, -3008),
      (7357, 7359, 1, -3008), (7680, 7828, 2, 1), (7838, 7838, 1, -7615), (7840, 7934, 2, 1),
      (7944, 7951, 1, -8), (7960, 7965, 1, -8), (7976, 7983, 1, -8), (7992, 7999, 1, -8),
      (8008, 8013, 1, -8), (8025, 8031, 2, -8), (8040, 8047, 1, -8), (8072, 8079, 1, -8),
      (8088, 8095, 1, -8), (8104, 8111, 1, -8), (8120, 8121, 1, -8), (8122, 8123, 1, -74),
      (8124, 8124, 1, -9), (8136, 8139, 1, -86), (8140, 8140, 1, -9), (8152, 8153, 1, -8),
      (8154, 8155, 1, -100), (8168, 8169, 1, -8), (8170, 8171, 1, -112), (8172, 8172, 1, -7),
      (8184, 8185, 1, -128), (8186, 8187, 1, -126), (8188, 8188, 1, -9),
      (8486, 8486, 1, -7517), (8490, 8490, 1, -8383), (8491, 8491, 1, -8262),
      (8498, 8498, 1, 28), (8544, 8559, 1, 16), (8579, 8579, 1, 1), (9398, 9423, 1, 26),
      (11264, 11311, 1, 48), (11360, 11360, 1, 1), (11362, 11362, 1, -10743),
      (11363, 11363, 1, -3814), (11364, 11364, 1, -10727), (11367, 11371, 2, 1),
      (11373, 11373, 1, -10780), (11374, 11374, 1, -10749), (11375, 11375, 1, -10783),
      (11376, 11376, 1, -10782), (11378, 11378, 1, 1), (11381, 11381, 1, 1),
      (11390, 11391, 1, -10815), (11392, 11490, 2, 1), (11499, 11501, 2, 1),
      (11506, 11506, 1, 1), (42560, 42604, 2, 1), (42624, 42650, 2, 1), (42786, 42798, 2, 1),
      (42802, 42862, 2, 1), (42873, 42875, 2, 1), (42877, 42877, 1, -35332),
      (42878, 42886, 2, 1), (42891, 42891, 1, 1), (42893, 42893, 1, -42280),
      (42896, 42898, 2, 1), (42902, 42920, 2, 1), (42922, 42922, 1, -42308),
      (42923, 42923, 1, -42319), (42924, 42924, 1, -42315), (42925, 42925, 1, -42305),
      (42926, 42926, 1, -42308), (42928, 42928, 1, -42258), (42929, 42929, 1, -42282),
      (42930, 42930, 1, -42261), (42931, 42931, 1, 928), (42932, 42946, 2, 1),
      (42948, 42948, 1, -48), (42949, 42949, 1, -42307), (42950, 42950, 1, -35384),
      (42951, 42953, 2, 1), (42960, 42960, 1, 1), (42966, 42968, 2, 1), (42997, 42997, 1, 1),
      (65313, 65338, 1, 32), (66560, 66599, 1, 40), (66736, 66771, 1, 40),
      (66928, 66938, 1, 39), (66940, 66954, 1, 39), (66956, 66962, 1, 39),
      (66964, 66965, 1, 39), (68736, 68786, 1, 64), (71840, 71871, 1, 32),
      (93760, 93791, 1, 32), (125184, 125217, 1, 34)]"

definition lower_special :: "(int \<times> int list) list" where
  "lower_special =
     [(304, [105, 775])]"

text \<open>
  The characters that decide the lower-case form of a capital sigma: the cased letters
  that are not case-ignorable, and the case-ignorable characters, as spans \<open>(lo, hi)\<close> in
  increasing order.
\<close>

definition cased_spans :: "(int \<times> int) list" where
  "cased_spans =
     [(65, 90), (97, 122), (170, 170), (181, 181), (186, 186), (192, 214), (216, 246),
      (248, 442), (444, 447), (452, 659), (661, 687), (880, 883), (886, 887), (891, 893),
      (895, 895), (902, 902), (904, 906), (908, 908), (910, 929), (931, 1013), (1015, 1153),
      (1162, 1327), (1329, 1366), (1376, 1416), (4256, 4293), (4295, 4295), (4301, 4301),
      (4304, 4346), (4349, 4351), (5024, 5109), (5112, 5117), (7296, 7304), (7312, 7354),
      (7357, 7359), (7424, 7467), (7531, 7543), (7545, 7578), (7680, 7957), (7960, 7965),
      (7968, 8005), (8008, 8013), (8016, 8023), (8025, 8025), (8027, 8027), (8029, 8029),
      (8031, 8061), (8064, 8116), (8118, 8124), (8126, 8126), (8130, 8132), (8134, 8140),
      (8144, 8147), (8150, 8155), (8160, 8172), (8178, 8180), (8182, 8188), (8450, 8450),
      (8455, 8455), (8458, 8467), (8469, 8469), (8473, 8477), (8484, 8484), (8486, 8486),
      (8488, 8488), (8490, 8493), (8495, 8500), (8505, 8505), (8508, 8511), (8517, 8521),
      (8526, 8526), (8544, 8575), (8579, 8580), (9398, 9449), (11264, 11387), (11390, 11492),
      (11499, 11502), (11506, 11507), (11520, 11557), (11559, 11559), (11565, 11565),
      (42560, 42605), (42624, 42651), (42786, 42863), (42865, 42887), (42891, 42894),
      (42896, 42954), (42960, 42961), (42963, 42963), (42965, 42969), (42997, 42998),
      (43002, 43002), (43824, 43866), (43872, 43880), (43888, 43967), (64256, 64262),
      (64275, 64279), (65313, 65338), (65345, 65370), (66560, 66639), (66736, 66771),
      (66776, 66811), (66928, 66938), (66940, 66954), (66956, 66962), (66964, 66965),
      (66967, 66977), (66979, 66993), (66995, 67001), (67003, 67004), (68736, 68786),
      (68800, 68850), (71840, 71903), (93760, 93823), (119808, 119892), (119894, 119964),
      (119966, 119967), (119970, 119970), (119973, 119974), (119977, 119980), (119982, 119993),
      (119995, 119995), (119997, 120003), (120005, 120069), (120071, 120074), (120077, 120084),
      (120086, 120092), (120094, 120121), (120123, 120126), (120128, 120132), (120134, 120134),
      (120138, 120144), (120146, 120485), (120488, 120512), (120514, 120538), (120540, 120570),
      (120572, 120596), (120598, 120628), (120630, 120654), (120656, 120686), (120688, 120712),
      (120714, 120744), (120746, 120770), (120772, 120779), (122624, 122633), (122635, 122654),
      (125184, 125251), (127280, 127305), (127312, 127337), (127344, 127369)]"

definition case_ignorable_spans :: "(int \<times> int) list" where
  "case_ignorable_spans =
     [(39, 39), (46, 46), (58, 58), (94, 94), (96, 96), (168, 168), (173, 173), (175, 175),
      (180, 180), (183, 184), (688, 879), (884, 885), (890, 890), (900, 901), (903, 903),
      (1155, 1161), (1369, 1369), (1375, 1375), (1425, 1469), (1471, 1471), (1473, 1474),
      (1476, 1477), (1479, 1479), (1524, 1524), (1536, 1541), (1552, 1562), (1564, 1564),
      (1600, 1600), (1611, 1631), (1648, 1648), (1750, 1757), (1759, 1768), (1770, 1773),
      (1807, 1807), (1809, 1809), (1840, 1866), (1958, 1968), (2027, 2037), (2042, 2042),
      (2045, 2045), (2070, 2093), (2137, 2139), (2184, 2184), (2192, 2193), (2200, 2207),
      (2249, 2306), (2362, 2362), (2364, 2364), (2369, 2376), (2381, 2381), (2385, 2391),
      (2402, 2403), (2417, 2417), (2433, 2433), (2492, 2492), (2497, 2500), (2509, 2509),
      (2530, 2531), (2558, 2558), (2561, 2562), (2620, 2620), (2625, 2626), (2631, 2632),
      (2635, 2637), (2641, 2641), (2672, 2673), (2677, 2677), (2689, 2690), (2748, 2748),
      (2753, 2757), (2759, 2760), (2765, 2765), (2786, 2787), (2810, 2815), (2817, 2817),
      (2876, 2876), (2879, 2879), (2881, 2884), (2893, 2893), (2901, 2902), (2914, 2915),
      (2946, 2946), (3008, 3008), (3021, 3021), (3072, 3072), (3076, 3076), (3132, 3132),
      (3134, 3136), (3142, 3144), (3146, 3149), (3157, 3158), (3170, 3171), (3201, 3201),
      (3260, 3260), (3263, 3263), (3270, 3270), (3276, 3277), (3298, 3299), (3328, 3329),
      (3387, 3388), (3393, 3396), (3405, 3405), (3426, 3427), (3457, 3457), (3530, 3530),
      (3538, 3540), (3542, 3542), (3633, 3633), (3636, 3642), (3654, 3662), (3761, 3761),
      (3764, 3772), (3782, 3782), (3784, 3789), (3864, 3865), (3893, 3893), (3895, 3895),
      (3897, 3897), (3953, 3966), (3968, 3972), (3974, 3975), (3981, 3991), (3993, 4028),
      (4038, 4038), (4141, 4144), (4146, 4151), (4153, 4154), (4157, 4158), (4184, 4185),
      (4190, 4192), (4209, 4212), (4226, 4226), (4229, 4230), (4237, 4237), (4253, 4253),
      (4348, 4348), (4957, 4959), (5906, 5908), (5938, 5939), (5970, 5971), (6002, 6003),
      (6068, 6069), (6071, 6077), (6086, 6086), (6089, 6099), (6103, 6103), (6109, 6109),
      (6155, 6159), (6211, 6211), (6277, 6278), (6313, 6313), (6432, 6434), (6439, 6440),
      (6450, 6450), (6457, 6459), (6679, 6680), (6683, 6683), (6742, 6742), (6744, 6750),
      (6752, 6752), (6754, 6754), (6757, 6764), (6771, 6780), (6783, 6783), (6823, 6823),
      (6832, 6862), (6912, 6915), (6964, 6964), (6966, 6970), (6972, 6972), (6978, 6978),
      (7019, 7027), (7040, 7041), (7074, 7077), (7080, 7081), (7083, 7085), (7142, 7142),
      (7144, 7145), (7149, 7149), (7151, 7153), (7212, 7219), (7222, 7223), (7288, 7293),
      (7376, 7378), (7380, 7392), (7394, 7400), (7405, 7405), (7412, 7412), (7416, 7417),
      (7468, 7530), (7544, 7544), (7579, 7679), (8125, 8125), (8127, 8129), (8141, 8143),
      (8157, 8159), (8173, 8175), (8189, 8190), (8203, 8207), (8216, 8217), (8228, 8228),
      (8231, 8231), (8234, 8238), (8288, 8292), (8294, 8303), (8305, 8305), (8319, 8319),
      (8336, 8348), (8400, 8432), (11388, 11389), (11503, 11505), (11631, 11631),
      (11647, 11647), (11744, 11775), (11823, 11823), (12293, 12293), (12330, 12333),
      (12337, 12341), (12347, 12347), (12441, 12446), (12540, 12542), (40981, 40981),
      (42232, 42237), (42508, 42508), (42607, 42610), (42612, 42621), (42623, 42623),
      (42652, 42655), (42736, 42737), (42752, 42785), (42864, 42864), (42888, 42890),
      (42994, 42996), (43000, 43001), (43010, 43010), (43014, 43014), (43019, 43019),
      (43045, 43046), (43052, 43052), (43204, 43205), (43232, 43249), (43263, 43263),
      (43302, 43309), (43335, 43345), (43392, 43394), (43443, 43443), (43446, 43449),
      (43452, 43453), (43471, 43471), (43493, 43494), (43561, 43566), (43569, 43570),
      (43573, 43574), (43587, 43587), (43596, 43596), (43632, 43632), (43644, 43644),
      (43696, 43696), (43698, 43700), (43703, 43704), (43710, 43711), (43713, 43713),
      (43741, 43741), (43756, 43757), (43763, 43764), (43766, 43766), (43867, 43871),
      (43881, 43883), (44005, 44005), (44008, 44008), (44013, 44013), (64286, 64286),
      (64434, 64450), (65024, 65039), (65043, 65043), (65056, 65071), (65106, 65106),
      (65109, 65109), (65279, 65279), (65287, 65287), (65294, 65294), (65306, 65306),
      (65342, 65342), (65344, 65344), (65392, 65392), (65438, 65439), (65507, 65507),
      (65529, 65531), (66045, 66045), (66272, 66272), (66422, 66426), (67456, 67461),
      (67463, 67504), (67506, 67514), (68097, 68099), (68101, 68102), (68108, 68111),
      (68152, 68154), (68159, 68159), (68325, 68326), (68900, 68903), (69291, 69292),
      (69446, 69456), (69506, 69509), (69633, 69633), (69688, 69702), (69744, 69744),
      (69747, 69748), (69759, 69761), (69811, 69814), (69817, 69818), (69821, 69821),
      (69826, 69826), (69837, 69837), (69888, 69890), (69927, 69931), (69933, 69940),
      (70003, 70003), (70016, 70017), (70070, 70078), (70089, 70092), (70095, 70095),
      (70191, 70193), (70196, 70196), (70198, 70199), (70206, 70206), (70367, 70367),
      (70371, 70378), (70400, 70401), (70459, 70460), (70464, 70464), (70502, 70508),
      (70512, 70516), (70712, 70719), (70722, 70724), (70726, 70726), (70750, 70750),
      (70835, 70840), (70842, 70842), (70847, 70848), (70850, 70851), (71090, 71093),
      (71100, 71101), (71103, 71104), (71132, 71133), (71219, 71226), (71229, 71229),
      (71231, 71232), (71339, 71339), (71341, 71341), (71344, 71349), (71351, 71351),
      (71453, 71455), (71458, 71461), (71463, 71467), (71727, 71735), (71737, 71738),
      (71995, 71996), (71998, 71998), (72003, 72003), (72148, 72151), (72154, 72155),
      (72160, 72160), (72193, 72202), (72243, 72248), (72251, 72254), (72263, 72263),
      (72273, 72278), (72281, 72283), (72330, 72342), (72344, 72345), (72752, 72758),
      (72760, 72765), (72767, 72767), (72850, 72871), (72874, 72880), (72882, 72883),
      (72885, 72886), (73009, 73014), (73018, 73018), (73020, 73021), (73023, 73029),
      (73031, 73031), (73104, 73105), (73109, 73109), (73111, 73111), (73459, 73460),
      (78896, 78904), (92912, 92916), (92976, 92982), (92992, 92995), (94031, 94031),
      (94095, 94111), (94176, 94177), (94179, 94180), (110576, 110579), (110581, 110587),
      (110589, 110590), (113821, 113822), (113824, 113827), (118528, 118573), (118576, 118598),
      (119143, 119145), (119155, 119170), (119173, 119179), (119210, 119213), (119362, 119364),
      (121344, 121398), (121403, 121452), (121461, 121461), (121476, 121476), (121499, 121503),
      (121505, 121519), (122880, 122886), (122888, 122904), (122907, 122913), (122915, 122916),
      (122918, 122922), (123184, 123197), (123566, 123566), (123628, 123631), (125136, 125142),
      (125252, 125259), (127995, 127999), (917505, 917505), (917536, 917631), (917760, 917999)]"

fun range_offset :: "case_range list \<Rightarrow> int \<Rightarrow> int option" where
  "range_offset [] c = None"
| "range_offset ((lo, hi, step, offset) # rs) c =
     (if c < lo then None
      else if c \<le> hi \<and> (c - lo) mod step = 0 then Some offset
      else range_offset rs c)"

fun special_case :: "(int \<times> int list) list \<Rightarrow> int \<Rightarrow> int list option" where
  "special_case [] c = None"
| "special_case ((k, v) # xs) c =
     (if c < k then None else if c = k then Some v else special_case xs c)"

fun in_spans :: "(int \<times> int) list \<Rightarrow> int \<Rightarrow> bool" where
  "in_spans [] c = False"
| "in_spans ((lo, hi) # xs) c =
     (if c < lo then False else if c \<le> hi then True else in_spans xs c)"

definition upper_full :: "int \<Rightarrow> int list" where
  "upper_full c =
     (case special_case upper_special c of
        Some cs \<Rightarrow> cs
      | None \<Rightarrow>
          (case range_offset upper_ranges c of Some offset \<Rightarrow> [c + offset] | None \<Rightarrow> [c]))"

definition lower_full :: "int \<Rightarrow> int list" where
  "lower_full c =
     (case special_case lower_special c of
        Some cs \<Rightarrow> cs
      | None \<Rightarrow>
          (case range_offset lower_ranges c of Some offset \<Rightarrow> [c + offset] | None \<Rightarrow> [c]))"

definition py_upper :: "pystr \<Rightarrow> pystr" where
  "py_upper s = concat (map upper_full s)"

text \<open>
  \<open>str.lower\<close> maps each character by \<open>lower_full\<close>, except a capital sigma: it becomes
  a final sigma when a cased letter precedes it and none follows it, case-ignorable
  characters skipped on both sides. \<open>seen\<close> holds the characters before it, nearest
  first.
\<close>

definition final_sigma :: "pystr \<Rightarrow> pystr \<Rightarrow> bool" where
  "final_sigma seen rest =
     ((case dropWhile (in_spans case_ignorable_spans) seen of
         [] \<Rightarrow> False
       | c # _ \<Rightarrow> in_spans cased_spans c) \<and>
      (case dropWhile (in_spans case_ignorable_spans) rest of
         [] \<Rightarrow> True
       | c # _ \<Rightarrow> \<not> in_spans cased_spans c))"

fun lower_from :: "pystr \<Rightarrow> pystr \<Rightarrow> pystr" where
  "lower_from seen [] = []"
| "lower_from seen (c # cs) =
     (if c = 0x3A3 then [if final_sigma seen cs then 0x3C2 else 0x3C3] else lower_full c) @
     lower_from (c # seen) cs"

definition py_lower :: "pystr \<Rightarrow> pystr" where
  "py_lower s = lower_from [] s"

fun py_join :: "pystr \<Rightarrow> pystr list \<Rightarrow> pystr" where
  "py_join sep [] = []"
| "py_join sep [x] = x"
| "py_join sep (x # y # ys) = x @ sep @ py_join sep (y # ys)"

text \<open>\<open>needle in haystack\<close> on strings: the needle occurs as a contiguous run.\<close>

fun py_in :: "pystr \<Rightarrow> pystr \<Rightarrow> bool" where
  "py_in needle [] = (needle = [])"
| "py_in needle (c # cs) = (take (length needle) (c # cs) = needle \<or> py_in needle cs)"

text \<open>
  Two strings are equal ignoring case when \<open>str.lower\<close> gives the same string for both.
\<close>

definition eq_ignore_case :: "pystr \<Rightarrow> pystr \<Rightarrow> bool" where
  "eq_ignore_case s t = (py_lower s = py_lower t)"


section \<open>Rows of the CSV file\<close>

text \<open>
  A row that passed \<open>load_csv_data\<close> has a value in each of the seven required columns.
  Each field holds its cell as text.
\<close>

record vehicle_record =
  IdVehicleType :: pystr
  Brand :: pystr
  Model :: pystr
  TheoricalConsumption :: pystr
  IdCompany :: pystr
  IdFuelMaster :: pystr
  VolumeLimit :: pystr

text \<open>A row as read from the file: a cell is \<open>None\<close> where pandas reports a missing value.\<close>

record raw_row =
  raw_IdVehicleType :: "pystr option"
  raw_Brand :: "pystr option"
  raw_Model :: "pystr option"
  raw_TheoricalConsumption :: "pystr option"
  raw_IdCompany :: "pystr option"
  raw_IdFuelMaster :: "pystr option"
  raw_VolumeLimit :: "pystr option"

text \<open>
  The CSV file on disk: absent, present but rejected by \<open>pd.read_csv\<close> (with the
  message of the exception), or a table with its header and its rows.
\<close>

datatype csv_file = NoCsvFile | BadCsvFile pystr | CsvTable "pystr list" "raw_row list"

datatype load_error =
    FileNotFound pystr
  | MissingColumns "pystr list"
  | ReadFailure pystr

definition required_columns :: "pystr list" where
  "required_columns =
     [ascii ''IdVehicleType'', ascii ''Brand'', ascii ''Model'', ascii ''TheoricalConsumption'',
      (ascii ''IdCompany''), ascii ''IdFuelMaster'', ascii ''VolumeLimit'']"

text \<open>\<open>df.dropna(subset=required_columns)\<close> on one row: the row stays when no cell is missing.\<close>

definition dropna_row :: "raw_row \<Rightarrow> vehicle_record option" where
  "dropna_row r =
     (case (raw_IdVehicleType r, raw_Brand r, raw_Model r, raw_TheoricalConsumption r,
            raw_IdCompany r, raw_IdFuelMaster r, raw_VolumeLimit r) of
        (Some t, Some b, Some m, Some tc, Some c, Some f, Some v) \<Rightarrow>
          Some \<lparr>IdVehicleType = t, Brand = b, Model = m, TheoricalConsumption = tc,
                IdCompany = c, IdFuelMaster = f, VolumeLimit = v\<rparr>
      | _ \<Rightarrow> None)"

definition load_csv_data :: "pystr \<Rightarrow> csv_file \<Rightarrow> load_error + vehicle_record list" where
  "load_csv_data csv_path csv =
     (case csv of
        NoCsvFile \<Rightarrow> Inl (FileNotFound csv_path)
      | BadCsvFile msg \<Rightarrow> Inl (ReadFailure msg)
      | CsvTable columns rows \<Rightarrow>
          (let missing_columns = filter (\<lambda>col. col \<notin> set columns) required_columns
           in if missing_columns \<noteq> [] then Inl (MissingColumns missing_columns)
              else Inr (List.map_filter dropna_row rows)))"


section \<open>Record identity\<close>

definition create_record_id :: "vehicle_record \<Rightarrow> pystr" where
  "create_record_id row =
     py_join (ascii ''_'')
       [IdVehicleType row,
        py_upper (py_strip (Brand row)),
        py_upper (py_strip (Model row)),
        IdCompany row,
        IdFuelMaster row]"


section \<open>The processed and failed ledgers\<close>

record processed_entry =
  entry_id :: pystr
  entry_data :: vehicle_record
  processed_at :: pystr

record failed_entry =
  failed_id :: pystr
  failed_data :: vehicle_record
  failed_error :: pystr
  failed_at :: pystr

text \<open>
  A ledger file is absent, present but not loadable as a JSON object, or a JSON object.
  Of the object the model keeps the keys the code reads, each absent or a list.
\<close>

datatype processed_file =
    NoProcessedFile
  | BadProcessedFile
  | ProcessedDoc "pystr list option" "processed_entry list option"

datatype failed_file =
    NoFailedFile
  | BadFailedFile
  | FailedDoc "failed_entry list option"

datatype ledger_exn = JsonLoadError | KeyError pystr

definition get_processed_records :: "processed_file \<Rightarrow> pystr list" where
  "get_processed_records pf =
     (case pf of
        NoProcessedFile \<Rightarrow> []
      | BadProcessedFile \<Rightarrow> []
      | ProcessedDoc None _ \<Rightarrow> []
      | ProcessedDoc (Some ids) _ \<Rightarrow> ids)"

text \<open>
  The body of the \<open>try\<close> of \<open>save_processed_record\<close>: \<open>Inl\<close> is an exception raised
  before the file is written, \<open>Inr\<close> the document written back. \<open>now\<close> is the text of
  \<open>pd.Timestamp.now().isoformat()\<close>.
\<close>

definition save_processed_body ::
  "pystr \<Rightarrow> pystr \<Rightarrow> vehicle_record \<Rightarrow> processed_file \<Rightarrow> ledger_exn + processed_file" where
  "save_processed_body now record_id record_data pf =
     (case pf of
        NoProcessedFile \<Rightarrow>
          Inr (ProcessedDoc (Some [record_id])
                 (Some [\<lparr>entry_id = record_id, entry_data = record_data, processed_at = now\<rparr>]))
      | BadProcessedFile \<Rightarrow> Inl JsonLoadError
      | ProcessedDoc None _ \<Rightarrow> Inl (KeyError (ascii ''processed_ids''))
      | ProcessedDoc (Some ids) recs \<Rightarrow>
          if record_id \<notin> set ids then
            (case recs of
               None \<Rightarrow> Inl (KeyError (ascii ''records''))
             | Some rs \<Rightarrow>
                 Inr (ProcessedDoc (Some (ids @ [record_id]))
                        (Some (rs @ [\<lparr>entry_id = record_id, entry_data = record_data,
                                       processed_at = now\<rparr>]))))
          else Inr (ProcessedDoc (Some ids) recs))"

definition save_processed_record ::
  "pystr \<Rightarrow> pystr \<Rightarrow> vehicle_record \<Rightarrow> processed_file \<Rightarrow> processed_file" where
  "save_processed_record now record_id record_data pf =
     (case save_processed_body now record_id record_data pf of
        Inl _ \<Rightarrow> pf
      | Inr pf' \<Rightarrow> pf')"

definition save_failed_body ::
  "pystr \<Rightarrow> pystr \<Rightarrow> vehicle_record \<Rightarrow> pystr \<Rightarrow> failed_file \<Rightarrow> ledger_exn + failed_file" where
  "save_failed_body now record_id record_data error_message ff =
     (let entry = \<lparr>failed_id = record_id, failed_data = record_data,
                   failed_error = error_message, failed_at = now\<rparr>
      in case ff of
           NoFailedFile \<Rightarrow> Inr (FailedDoc (Some [entry]))
         | BadFailedFile \<Rightarrow> Inl JsonLoadError
         | FailedDoc None \<Rightarrow> Inl (KeyError (ascii ''failed_records''))
         | FailedDoc (Some es) \<Rightarrow> Inr (FailedDoc (Some (es @ [entry]))))"

definition save_failed_record ::
  "pystr \<Rightarrow> pystr \<Rightarrow> vehicle_record \<Rightarrow> pystr \<Rightarrow> failed_file \<Rightarrow> failed_file" where
  "save_failed_record now record_id record_data error_message ff =
     (case save_failed_body now record_id record_data error_message ff of
        Inl _ \<Rightarrow> ff
      | Inr ff' \<Rightarrow> ff')"

text \<open>The entries of the failed ledger; a file that holds no ledger has none.\<close>

definition failed_entries :: "failed_file \<Rightarrow> failed_entry list" where
  "failed_entries ff = (case ff of FailedDoc (Some es) \<Rightarrow> es | _ \<Rightarrow> [])"

definition processed_entries :: "processed_file \<Rightarrow> processed_entry list" where
  "processed_entries pf = (case pf of ProcessedDoc _ (Some rs) \<Rightarrow> rs | _ \<Rightarrow> [])"


section \<open>Unprocessed records\<close>

text \<open>The loop of \<open>get_unprocessed_records\<close> over the rows, in row order.\<close>

primrec unprocessed_rows :: "pystr list \<Rightarrow> vehicle_record list \<Rightarrow> (pystr \<times> vehicle_record) list" where
  "unprocessed_rows processed_ids [] = []"
| "unprocessed_rows processed_ids (row # rows) =
     (let record_id = create_record_id row
      in if record_id \<notin> set processed_ids
         then (record_id, row) # unprocessed_rows processed_ids rows
         else unprocessed_rows processed_ids rows)"

definition get_unprocessed_records ::
  "pystr \<Rightarrow> csv_file \<Rightarrow> processed_file \<Rightarrow> load_error + (pystr \<times> vehicle_record) list" where
  "get_unprocessed_records csv_path csv pf =
     (case load_csv_data csv_path csv of
        Inl e \<Rightarrow> Inl e
      | Inr df \<Rightarrow> Inr (unprocessed_rows (get_processed_records pf) df))"


section \<open>The remote submitter\<close>

text \<open>
  A Python float is a finite value, an infinity (with its sign) or not a number. The
  conversion \<open>float(cell)\<close> is a parameter of the model: \<open>Inl\<close> carries the message of
  the exception it raises.
\<close>

datatype pyfloat = Finite rat | Infinite bool | NotANumber

record fuel_master =
  fm_IdFuelMaster :: pystr
  fm_VolumeLimit :: pyfloat

record wire_record =
  w_IdVehicleType :: pystr
  w_Brand :: pystr
  w_Model :: pystr
  w_TheoricalConsumption :: pyfloat
  w_IdCompany :: pystr
  w_VehiclesClassesFuelsMaster :: "fuel_master list"

definition format_vehicle_data ::
  "(pystr \<Rightarrow> pystr + pyfloat) \<Rightarrow> vehicle_record \<Rightarrow> pystr + wire_record" where
  "format_vehicle_data to_float row_data =
     (case to_float (TheoricalConsumption row_data) of
        Inl e \<Rightarrow> Inl (ascii ''Error formateando datos de la fila: '' @ e)
      | Inr consumption \<Rightarrow>
          (case to_float (VolumeLimit row_data) of
             Inl e \<Rightarrow> Inl (ascii ''Error formateando datos de la fila: '' @ e)
           | Inr limit \<Rightarrow>
               Inr \<lparr>w_IdVehicleType = IdVehicleType row_data,
                    w_Brand = Brand row_data,
                    w_Model = Model row_data,
                    w_TheoricalConsumption = consumption,
                    w_IdCompany = IdCompany row_data,
                    w_VehiclesClassesFuelsMaster =
                      [\<lparr>fm_IdFuelMaster = IdFuelMaster row_data, fm_VolumeLimit = limit\<rparr>]\<rparr>))"

text \<open>
  What one call of \<open>requests.post\<close> does: it returns a response (status code, text, and
  the value of \<open>response.json()\<close>, \<open>None\<close> when the text is not JSON), or raises.
\<close>

datatype http_result =
    Response nat pystr "pystr option"
  | RaisesTimeout
  | RaisesConnectionError
  | RaisesOther pystr

datatype response_data = JsonBody pystr | StatusSuccess

text \<open>
  The calls of \<open>time.sleep\<close>, by the place that makes them: the backoff of
  \<open>send_vehicle_data\<close> (with the attempt index), the pause after a record, the pause
  between two batches.
\<close>

datatype pause = Backoff nat | BetweenRecords | BetweenBatches

definition seconds :: "pause \<Rightarrow> rat" where
  "seconds p = (case p of Backoff attempt \<Rightarrow> 2 ^ attempt | BetweenRecords \<Rightarrow> 1 / 10 | BetweenBatches \<Rightarrow> 1)"

text \<open>
  The configuration and the surroundings of a run: \<open>post n data\<close> is the outcome of the
  \<open>n\<close>-th call of \<open>requests.post\<close> (counted from 0) when it sends \<open>data\<close>, and
  \<open>clock n\<close> is the timestamp read at the \<open>n\<close>-th ledger update.
\<close>

record env =
  csv_path :: pystr
  retries :: nat
  batch_size :: nat
  post :: "nat \<Rightarrow> wire_record \<Rightarrow> http_result"
  to_float :: "pystr \<Rightarrow> pystr + pyfloat"
  clock :: "nat \<Rightarrow> pystr"

text \<open>
  The state a run reads and changes: the three files, the requests sent so far, the
  pauses made so far, and the calls of \<open>save_processed_record\<close> and
  \<open>save_failed_record\<close> made so far, with their arguments.
\<close>

datatype ledger_call =
    MarkProcessed pystr vehicle_record
  | MarkFailed pystr vehicle_record pystr

record world =
  csv :: csv_file
  processed :: processed_file
  failed :: failed_file
  posts :: "wire_record list"
  sleeps :: "pause list"
  calls :: "ledger_call list"

definition digit_char :: "nat \<Rightarrow> int" where
  "digit_char d = 48 + int d"

fun str_nat :: "nat \<Rightarrow> pystr" where
  "str_nat n = (if n < 10 then [digit_char n] else str_nat (n div 10) @ [digit_char (n mod 10)])"

declare str_nat.simps [simp del]

definition after_attempts :: pystr where
  "after_attempts = ascii '' despu'' @ [0xE9] @ ascii ''s de m'' @ [0xFA] @ ascii ''ltiples intentos''"

type_synonym send_result = "bool \<times> response_data option \<times> pystr option"

text \<open>The loop \<open>for attempt in range(self.retries)\<close> of \<open>send_vehicle_data\<close>, from \<open>attempt\<close> on.\<close>

function send_attempts :: "env \<Rightarrow> wire_record \<Rightarrow> nat \<Rightarrow> world \<Rightarrow> send_result \<times> world" where
  "send_attempts e vehicle_data attempt w =
     (if attempt < retries e then
        (let w1 = w\<lparr>posts := posts w @ [vehicle_data]\<rparr>
         in case post e (length (posts w)) vehicle_data of
              Response status_code txt js \<Rightarrow>
                if status_code = 200 \<or> status_code = 201 then
                  (case js of
                     Some response_data \<Rightarrow> ((True, Some (JsonBody response_data), None), w1)
                   | None \<Rightarrow> ((True, Some StatusSuccess, None), w1))
                else if status_code = 409 then
                  ((False, None, Some (ascii ''Datos duplicados o conflicto: '' @ txt)), w1)
                else if status_code \<ge> 400 then
                  ((False, None,
                    Some (ascii ''Error del cliente ('' @ str_nat status_code @ ascii ''): '' @ txt)), w1)
                else if int attempt < int (retries e) - 1 then
                  send_attempts e vehicle_data (attempt + 1)
                    (w1\<lparr>sleeps := sleeps w1 @ [Backoff attempt]\<rparr>)
                else
                  ((False, None,
                    Some (ascii ''Error del servidor ('' @ str_nat status_code @ ascii ''): '' @ txt)), w1)
            | RaisesTimeout \<Rightarrow>
                if int attempt < int (retries e) - 1 then
                  send_attempts e vehicle_data (attempt + 1)
                    (w1\<lparr>sleeps := sleeps w1 @ [Backoff attempt]\<rparr>)
                else ((False, None, Some (ascii ''Timeout'' @ after_attempts)), w1)
            | RaisesConnectionError \<Rightarrow>
                if int attempt < int (retries e) - 1 then
                  send_attempts e vehicle_data (attempt + 1)
                    (w1\<lparr>sleeps := sleeps w1 @ [Backoff attempt]\<rparr>)
                else ((False, None, Some (ascii ''Error de conexi'' @ [0xF3] @ ascii ''n'' @ after_attempts)), w1)
            | RaisesOther msg \<Rightarrow> ((False, None, Some (ascii ''Error inesperado: '' @ msg)), w1))
      else ((False, None, Some (ascii ''Error'' @ after_attempts)), w))"
  by pat_completeness auto
termination
  by (relation "measure (\<lambda>(e, vehicle_data, attempt, w). retries e - attempt)") auto

declare send_attempts.simps [simp del]

definition send_vehicle_data :: "env \<Rightarrow> wire_record \<Rightarrow> world \<Rightarrow> send_result \<times> world" where
  "send_vehicle_data e vehicle_data w = send_attempts e vehicle_data 0 w"


section \<open>The batch orchestrator\<close>

record batch_summary =
  processed_successfully :: nat
  failed_records :: nat
  skipped_duplicates :: nat
  errors :: "pystr list"

record run_summary = batch_summary +
  total_records :: nat

text \<open>The test the orchestrator makes on the error text of a failed submission.\<close>

definition is_duplicate_error :: "pystr option \<Rightarrow> bool" where
  "is_duplicate_error err =
     (case err of
        None \<Rightarrow> False
      | Some msg \<Rightarrow>
          msg \<noteq> [] \<and>
          (py_in (ascii ''duplicate'') (py_lower msg) \<or> py_in (ascii ''conflict'') (py_lower msg) \<or> py_in (ascii ''409'') msg))"

definition str_error :: "pystr option \<Rightarrow> pystr" where
  "str_error err = (case err of None \<Rightarrow> ascii ''None'' | Some msg \<Rightarrow> msg)"

definition error_or_unknown :: "pystr option \<Rightarrow> pystr" where
  "error_or_unknown err =
     (case err of None \<Rightarrow> ascii ''Error desconocido'' | Some msg \<Rightarrow> if msg = [] then ascii ''Error desconocido'' else msg)"

definition mark_processed :: "env \<Rightarrow> pystr \<Rightarrow> vehicle_record \<Rightarrow> world \<Rightarrow> world" where
  "mark_processed e record_id record_data w =
     w\<lparr>processed :=
         save_processed_record (clock e (length (calls w))) record_id record_data (processed w),
       calls := calls w @ [MarkProcessed record_id record_data]\<rparr>"

definition mark_failed :: "env \<Rightarrow> pystr \<Rightarrow> vehicle_record \<Rightarrow> pystr \<Rightarrow> world \<Rightarrow> world" where
  "mark_failed e record_id record_data error_message w =
     w\<lparr>failed :=
         save_failed_record (clock e (length (calls w))) record_id record_data error_message
           (failed w),
       calls := calls w @ [MarkFailed record_id record_data error_message]\<rparr>"

definition sleep :: "pause \<Rightarrow> world \<Rightarrow> world" where
  "sleep p w = w\<lparr>sleeps := sleeps w @ [p]\<rparr>"

text \<open>The body of the loop of \<open>_process_batch\<close> for one record.\<close>

definition process_record ::
  "env \<Rightarrow> pystr \<times> vehicle_record \<Rightarrow> batch_summary \<times> world \<Rightarrow> batch_summary \<times> world" where
  "process_record e rec st =
     (case (rec, st) of ((record_id, record_data), (summary, w)) \<Rightarrow>
        (case format_vehicle_data (to_float e) record_data of
           Inl exn \<Rightarrow>
             (summary\<lparr>failed_records := failed_records summary + 1,
                      errors := errors summary @
                        [ascii ''Error inesperado procesando '' @ record_id @ ascii '': '' @ exn]\<rparr>,
              mark_failed e record_id record_data exn w)
         | Inr formatted_data \<Rightarrow>
             (case send_vehicle_data e formatted_data w of
                ((success, response, err), w1) \<Rightarrow>
                  if success then
                    (summary\<lparr>processed_successfully := processed_successfully summary + 1\<rparr>,
                     sleep BetweenRecords (mark_processed e record_id record_data w1))
                  else if is_duplicate_error err then
                    (summary\<lparr>skipped_duplicates := skipped_duplicates summary + 1\<rparr>,
                     sleep BetweenRecords (mark_processed e record_id record_data w1))
                  else
                    (summary\<lparr>failed_records := failed_records summary + 1,
                             errors := errors summary @
                               [ascii ''Error procesando '' @ record_id @ ascii '': '' @ str_error err]\<rparr>,
                     sleep BetweenRecords
                       (mark_failed e record_id record_data (error_or_unknown err) w1)))))"

fun batch_loop ::
  "env \<Rightarrow> (pystr \<times> vehicle_record) list \<Rightarrow> batch_summary \<times> world \<Rightarrow> batch_summary \<times> world" where
  "batch_loop e [] st = st"
| "batch_loop e (rec # batch) st = batch_loop e batch (process_record e rec st)"

definition empty_batch_summary :: batch_summary where
  "empty_batch_summary =
     \<lparr>processed_successfully = 0, failed_records = 0, skipped_duplicates = 0, errors = []\<rparr>"

definition process_batch ::
  "env \<Rightarrow> (pystr \<times> vehicle_record) list \<Rightarrow> world \<Rightarrow> batch_summary \<times> world" where
  "process_batch e batch w = batch_loop e batch (empty_batch_summary, w)"

text \<open>
  \<open>str\<close> of a list of column names: the names are those of \<open>required_columns\<close>, which
  \<open>repr\<close> puts between single quotes as they are.
\<close>

definition py_repr_list :: "pystr list \<Rightarrow> pystr" where
  "py_repr_list xs = ascii ''['' @ py_join (ascii '', '') (map (\<lambda>x. [0x27] @ x @ [0x27]) xs) @ ascii '']''"

text \<open>\<open>str(e)\<close> for the exception \<open>load_csv_data\<close> raises.\<close>

definition error_text :: "load_error \<Rightarrow> pystr" where
  "error_text err =
     (case err of
        FileNotFound path \<Rightarrow> ascii ''Archivo CSV no encontrado: '' @ path
      | MissingColumns cols \<Rightarrow> ascii ''Columnas faltantes en el CSV: '' @ py_repr_list cols
      | ReadFailure msg \<Rightarrow> msg)"

definition add_batch :: "run_summary \<Rightarrow> batch_summary \<Rightarrow> run_summary" where
  "add_batch summary b =
     summary\<lparr>processed_successfully := processed_successfully summary + processed_successfully b,
             failed_records := failed_records summary + failed_records b,
             skipped_duplicates := skipped_duplicates summary + skipped_duplicates b,
             errors := errors summary @ errors b\<rparr>"

text \<open>
  The loop \<open>for i in range(0, len(unprocessed_records), self.batch_size)\<close> of
  \<open>process_all_vehicles\<close>, from index \<open>i\<close> on. A step of zero never reaches the loop:
  \<open>range\<close> raises, see \<open>process_all_vehicles\<close>.
\<close>

function batches_from ::
  "env \<Rightarrow> (pystr \<times> vehicle_record) list \<Rightarrow> nat \<Rightarrow> run_summary \<times> world \<Rightarrow> run_summary \<times> world" where
  "batches_from e records i st =
     (if i < length records \<and> 0 < batch_size e then
        (case st of (summary, w) \<Rightarrow>
           (case process_batch e (take (batch_size e) (drop i records)) w of
              (b, w1) \<Rightarrow>
                batches_from e records (i + batch_size e)
                  (add_batch summary b,
                   if i + batch_size e < length records then sleep BetweenBatches w1 else w1)))
      else st)"
  by pat_completeness auto
termination
  by (relation "measure (\<lambda>(e, records, i, st). length records - i)") auto

declare batches_from.simps [simp del]

definition empty_run_summary :: run_summary where
  "empty_run_summary =
     \<lparr>processed_successfully = 0, failed_records = 0, skipped_duplicates = 0, errors = [],
      total_records = 0\<rparr>"

text \<open>
  \<open>process_all_vehicles\<close>. The field \<open>processing_time_seconds\<close> of the summary, a
  wall-clock measurement, is left out.
\<close>

definition process_all_vehicles :: "env \<Rightarrow> world \<Rightarrow> run_summary \<times> world" where
  "process_all_vehicles e w =
     (case get_unprocessed_records (csv_path e) (csv w) (processed w) of
        Inl exn \<Rightarrow>
          (empty_run_summary\<lparr>errors := [ascii ''Error en procesamiento general: '' @ error_text exn]\<rparr>, w)
      | Inr unprocessed_records \<Rightarrow>
          (let summary = empty_run_summary\<lparr>total_records := length unprocessed_records\<rparr>
           in if unprocessed_records = [] then (summary, w)
              else if batch_size e = 0 then
                (summary\<lparr>errors := errors summary @
                   [ascii ''Error en procesamiento general: range() arg 3 must not be zero'']\<rparr>, w)
              else batches_from e unprocessed_records 0 (summary, w)))"


section \<open>The status reporter\<close>

text \<open>
  A Python float is an IEEE 754 double, modelled by its exact value, a rational number.
  \<open>nearest_double n d\<close> is the double nearest to the quotient \<open>n / d\<close> of two integers with
  \<open>n \<ge> 0\<close> and \<open>d > 0\<close>, a tie going to the even significand: the result of the division
  of two \<open>int\<close>s, of the product of two floats, and of reading a decimal. The counts of
  the status are lengths of lists, below \<open>2 ^ 63\<close>, so that every quotient here is a
  normal number; overflow and subnormal numbers are not modelled.
\<close>

definition round_half_even :: "int \<Rightarrow> int \<Rightarrow> int" where
  "round_half_even n d =
     (let q = n div d; r = n mod d
      in if 2 * r < d then q else if d < 2 * r then q + 1 else if even q then q else q + 1)"

function bit_length :: "int \<Rightarrow> nat" where
  "bit_length n = (if n \<le> 0 then 0 else Suc (bit_length (n div 2)))"
  by pat_completeness auto
termination
  by (relation "measure nat") auto

declare bit_length.simps [simp del]

text \<open>\<open>scale n k\<close> is \<open>n * 2 ^ k\<close> for \<open>k \<ge> 0\<close>, and \<open>n\<close> otherwise.\<close>

definition scale :: "int \<Rightarrow> int \<Rightarrow> int" where
  "scale n k = (if 0 \<le> k then n * 2 ^ nat k else n)"

text \<open>The exponent \<open>e\<close> with \<open>2 ^ e \<le> n / d < 2 ^ (e + 1)\<close>.\<close>

definition binary_exponent :: "int \<Rightarrow> int \<Rightarrow> int" where
  "binary_exponent n d =
     (let k = int (bit_length n) - int (bit_length d)
      in if scale d k \<le> scale n (- k) then k else k - 1)"

definition nearest_double :: "int \<Rightarrow> int \<Rightarrow> rat" where
  "nearest_double n d =
     (if n = 0 then 0
      else let s = 52 - binary_exponent n d;
               m = round_half_even (scale n s) (scale d (- s))
           in of_int (scale m (- s)) / of_int (scale 1 s))"

definition to_double :: "rat \<Rightarrow> rat" where
  "to_double x = (case quotient_of x of (n, d) \<Rightarrow> nearest_double n d)"

text \<open>\<open>a / b\<close> on two \<open>int\<close>s, and \<open>x * y\<close> on two floats.\<close>

definition float_div :: "nat \<Rightarrow> nat \<Rightarrow> rat" where
  "float_div a b = nearest_double (int a) (int b)"

definition float_mul :: "rat \<Rightarrow> rat \<Rightarrow> rat" where
  "float_mul x y = to_double (x * y)"

text \<open>
  \<open>round(x, 2)\<close> on a float: the exact value of \<open>x\<close> is rounded to the nearest multiple
  of 1/100, a tie going to the even one, and that decimal is read back as a double.
\<close>

definition py_round2 :: "rat \<Rightarrow> rat" where
  "py_round2 x =
     (case quotient_of (x * 100) of (n, d) \<Rightarrow> nearest_double (round_half_even n d) 100)"

record status =
  st_error :: "pystr option"
  st_total_records :: nat
  st_processed_records :: nat
  st_pending_records :: nat
  st_completion_percentage :: rat

definition error_status :: "pystr \<Rightarrow> status" where
  "error_status msg =
     \<lparr>st_error = Some msg, st_total_records = 0, st_processed_records = 0,
      st_pending_records = 0, st_completion_percentage = 0\<rparr>"

definition get_processing_status :: "env \<Rightarrow> world \<Rightarrow> status" where
  "get_processing_status e w =
     (case load_csv_data (csv_path e) (csv w) of
        Inl exn \<Rightarrow> error_status (error_text exn)
      | Inr df \<Rightarrow>
          (let total = length df;
               processed_count = length (get_processed_records (processed w))
           in case get_unprocessed_records (csv_path e) (csv w) (processed w) of
                Inl exn \<Rightarrow> error_status (error_text exn)
              | Inr unprocessed_records \<Rightarrow>
                  \<lparr>st_error = None,
                   st_total_records = total,
                   st_processed_records = processed_count,
                   st_pending_records = length unprocessed_records,
                   st_completion_percentage =
                     (if total > 0
                      then py_round2 (float_mul (float_div processed_count total) 100)
                      else 0)\<rparr>))"


section \<open>Notions used in the statements\<close>

text \<open>What a call of \<open>send_vehicle_data\<close> leaves as it was: the files, the ledger calls
  made so far, and the pauses between batches.\<close>

definition frame :: "world \<Rightarrow> world \<Rightarrow> bool" where
  "frame w w' =
     (csv w' = csv w \<and> processed w' = processed w \<and> failed w' = failed w \<and>
      calls w' = calls w \<and>
      filter (\<lambda>p. p = BetweenBatches) (sleeps w') = filter (\<lambda>p. p = BetweenBatches) (sleeps w))"

text \<open>The processed file is absent or holds both lists of the ledger.\<close>

definition holds_ledger :: "processed_file \<Rightarrow> bool" where
  "holds_ledger pf =
     (case pf of
        NoProcessedFile \<Rightarrow> True
      | ProcessedDoc (Some _) (Some _) \<Rightarrow> True
      | _ \<Rightarrow> False)"

text \<open>The failed file is absent or holds the list of the ledger.\<close>

definition holds_failed_ledger :: "failed_file \<Rightarrow> bool" where
  "holds_failed_ledger ff =
     (case ff of
        NoFailedFile \<Rightarrow> True
      | FailedDoc (Some _) \<Rightarrow> True
      | _ \<Rightarrow> False)"

text \<open>The number of records a summary has counted, under any of its three counters.\<close>

definition classified :: "batch_summary \<Rightarrow> nat" where
  "classified s = processed_successfully s + failed_records s + skipped_duplicates s"

definition run_classified :: "run_summary \<Rightarrow> nat" where
  "run_classified s = processed_successfully s + failed_records s + skipped_duplicates s"

text \<open>The record a ledger call is made for, and whether the call is to the failed ledger.\<close>

definition call_record :: "ledger_call \<Rightarrow> pystr \<times> vehicle_record" where
  "call_record c =
     (case c of MarkProcessed record_id d \<Rightarrow> (record_id, d) | MarkFailed record_id d _ \<Rightarrow> (record_id, d))"

definition is_failed_call :: "ledger_call \<Rightarrow> bool" where
  "is_failed_call c = (case c of MarkProcessed _ _ \<Rightarrow> False | MarkFailed _ _ _ \<Rightarrow> True)"

text \<open>The wire records of the records that \<open>format_vehicle_data\<close> accepts, in order.\<close>

definition wires_of :: "env \<Rightarrow> (pystr \<times> vehicle_record) list \<Rightarrow> wire_record list" where
  "wires_of e records =
     List.map_filter
       (\<lambda>r. case format_vehicle_data (to_float e) (snd r) of Inl _ \<Rightarrow> None | Inr wire \<Rightarrow> Some wire)
       records"

text \<open>A string all of whose characters are in Latin-1, the code points below 256.\<close>

definition latin1 :: "pystr \<Rightarrow> bool" where
  "latin1 s = list_all (\<lambda>c. 0 \<le> c \<and> c < 256) s"


section \<open>Sample inputs\<close>

definition ford_lower :: vehicle_record where
  "ford_lower =
     \<lparr>IdVehicleType = ascii ''T1'', Brand = ascii ''ford'', Model = ascii ''Focus'',
      TheoricalConsumption = ascii ''7.5'', IdCompany = ascii ''C1'', IdFuelMaster = ascii ''F1'',
      VolumeLimit = ascii ''50''\<rparr>"

definition ford_upper :: vehicle_record where
  "ford_upper =
     \<lparr>IdVehicleType = ascii ''T1'', Brand = ascii ''FORD'', Model = ascii ''FOCUS'',
      TheoricalConsumption = ascii ''8.1'', IdCompany = ascii ''C1'', IdFuelMaster = ascii ''F1'',
      VolumeLimit = ascii ''55''\<rparr>"

definition corolla :: vehicle_record where
  "corolla =
     \<lparr>IdVehicleType = ascii ''T2'', Brand = ascii ''Toyota'', Model = ascii ''Corolla'',
      TheoricalConsumption = ascii ''6.2'', IdCompany = ascii ''C1'', IdFuelMaster = ascii ''F1'',
      VolumeLimit = ascii ''45''\<rparr>"

text \<open>
  \<open>Citro\<close>, e with diaeresis, \<open>n\<close> in lower case, and the same brand in capitals after a
  no-break space.
\<close>

definition citroen_lower :: vehicle_record where
  "citroen_lower =
     \<lparr>IdVehicleType = ascii ''T4'', Brand = ascii ''Citro'' @ [0xEB] @ ascii ''n'',
      Model = ascii ''c4 '', TheoricalConsumption = ascii ''5.1'', IdCompany = ascii ''C1'',
      IdFuelMaster = ascii ''F1'', VolumeLimit = ascii ''40''\<rparr>"

definition citroen_upper :: vehicle_record where
  "citroen_upper =
     \<lparr>IdVehicleType = ascii ''T4'', Brand = [0xA0] @ ascii ''CITRO'' @ [0xCB] @ ascii ''N'',
      Model = ascii ''C4'', TheoricalConsumption = ascii ''5.3'', IdCompany = ascii ''C1'',
      IdFuelMaster = ascii ''F1'', VolumeLimit = ascii ''42''\<rparr>"

text \<open>Two rows whose brands are the letter \<open>k\<close> and the Kelvin sign, code point \<open>0x212A\<close>.\<close>

definition letter_k :: vehicle_record where
  "letter_k =
     \<lparr>IdVehicleType = ascii ''T5'', Brand = ascii ''k'', Model = ascii ''One'',
      TheoricalConsumption = ascii ''4.0'', IdCompany = ascii ''C1'', IdFuelMaster = ascii ''F1'',
      VolumeLimit = ascii ''30''\<rparr>"

definition kelvin_sign :: vehicle_record where
  "kelvin_sign =
     \<lparr>IdVehicleType = ascii ''T5'', Brand = [0x212A], Model = ascii ''One'',
      TheoricalConsumption = ascii ''4.0'', IdCompany = ascii ''C1'', IdFuelMaster = ascii ''F1'',
      VolumeLimit = ascii ''30''\<rparr>"

text \<open>A row whose volume limit is written with a decimal comma, which \<open>float\<close> rejects.\<close>

definition comma_limit :: vehicle_record where
  "comma_limit =
     \<lparr>IdVehicleType = ascii ''T3'', Brand = ascii ''Fiat'', Model = ascii ''Uno'',
      TheoricalConsumption = ascii ''5.9'', IdCompany = ascii ''C1'', IdFuelMaster = ascii ''F1'',
      VolumeLimit = ascii ''12,5''\<rparr>"

definition numbered_row :: "nat \<Rightarrow> vehicle_record" where
  "numbered_row n =
     \<lparr>IdVehicleType = str_nat n, Brand = ascii ''Brand'', Model = ascii ''Model'',
      TheoricalConsumption = ascii ''1'', IdCompany = ascii ''C1'', IdFuelMaster = ascii ''F1'',
      VolumeLimit = ascii ''1''\<rparr>"

definition to_raw :: "vehicle_record \<Rightarrow> raw_row" where
  "to_raw r =
     \<lparr>raw_IdVehicleType = Some (IdVehicleType r), raw_Brand = Some (Brand r),
      raw_Model = Some (Model r), raw_TheoricalConsumption = Some (TheoricalConsumption r),
      raw_IdCompany = Some (IdCompany r), raw_IdFuelMaster = Some (IdFuelMaster r),
      raw_VolumeLimit = Some (VolumeLimit r)\<rparr>"

definition table_of :: "vehicle_record list \<Rightarrow> csv_file" where
  "table_of rows = CsvTable required_columns (map to_raw rows)"

text \<open>A stand-in for \<open>float\<close>: it rejects the cell with the decimal comma, as \<open>float\<close> does.\<close>

definition sample_float :: "pystr \<Rightarrow> pystr + pyfloat" where
  "sample_float s =
     (if s = ascii ''12,5''
      then Inl (ascii ''could not convert string to float: '' @ [0x27] @ s @ [0x27])
      else Inr (Finite 1))"

definition sample_wire :: wire_record where
  "sample_wire =
     \<lparr>w_IdVehicleType = ascii ''T1'', w_Brand = ascii ''ford'', w_Model = ascii ''Focus'',
      w_TheoricalConsumption = Finite 1, w_IdCompany = ascii ''C1'',
      w_VehiclesClassesFuelsMaster =
        [\<lparr>fm_IdFuelMaster = ascii ''F1'', fm_VolumeLimit = Finite 1\<rparr>]\<rparr>"

text \<open>The configuration of \<open>config.py\<close>, with a remote that answers by the number of the request.\<close>

definition scripted_env :: "(nat \<Rightarrow> http_result) \<Rightarrow> env" where
  "scripted_env script =
     \<lparr>csv_path = ascii ''clases_vehiculos.csv'', retries = 3, batch_size = 10,
      post = (\<lambda>n d. script n), to_float = sample_float, clock = str_nat\<rparr>"

definition two_failures_then_ok :: "nat \<Rightarrow> http_result" where
  "two_failures_then_ok n =
     (if n < 2 then Response 500 (ascii ''Internal Server Error'') None
      else Response 200 (ascii ''ok'') None)"

definition always :: "http_result \<Rightarrow> nat \<Rightarrow> http_result" where
  "always r n = r"

definition ok_then_bad_request :: "nat \<Rightarrow> http_result" where
  "ok_then_bad_request n =
     (if n = 0 then Response 200 (ascii ''ok'') None else Response 400 (ascii ''bad request'') None)"

text \<open>The processed ledger after the first of three numbered rows has been marked.\<close>

definition one_marked :: processed_file where
  "one_marked =
     save_processed_record (str_nat 0) (create_record_id (numbered_row 0)) (numbered_row 0)
       NoProcessedFile"

text \<open>The processed ledger after the first four numbered rows have been marked.\<close>

definition four_marked :: processed_file where
  "four_marked =
     fold (\<lambda>n. save_processed_record (str_nat n) (create_record_id (numbered_row n))
                 (numbered_row n))
       [0..<4] NoProcessedFile"

definition fresh_world :: "csv_file \<Rightarrow> world" where
  "fresh_world c =
     \<lparr>csv = c, processed = NoProcessedFile, failed = NoFailedFile, posts = [], sleeps = [],
      calls = []\<rparr>"


section \<open>Record identity: properties\<close>

lemma latin1_table:
  "list_all (\<lambda>c. c \<noteq> 0x3A3 \<and> (case lower_full c of [l] \<Rightarrow> upper_full l = upper_full c | _ \<Rightarrow> False))
     [0..255]"
  by code_simp

lemma latin1_char:
  assumes "0 \<le> c" and "c < 256"
  shows "c \<noteq> 0x3A3 \<and> (\<exists>l. lower_full c = [l] \<and> upper_full l = upper_full c)"
proof -
  have "c \<in> set [0..255]" using assms by simp
  with latin1_table
  have "c \<noteq> 0x3A3 \<and> (case lower_full c of [l] \<Rightarrow> upper_full l = upper_full c | _ \<Rightarrow> False)"
    unfolding list_all_iff by blast
  then show ?thesis by (auto split: list.splits)
qed

lemma lower_from_no_sigma:
  "\<forall>c\<in>set s. c \<noteq> 0x3A3 \<Longrightarrow> lower_from seen s = concat (map lower_full s)"
  by (induction s arbitrary: seen) simp_all

lemma py_upper_append: "py_upper (a @ b) = py_upper a @ py_upper b"
  by (simp add: py_upper_def)

lemma latin1_upper_lower: "latin1 s \<Longrightarrow> py_upper (py_lower s) = py_upper s"
proof -
  assume l: "latin1 s"
  then have ns: "\<forall>c\<in>set s. c \<noteq> 0x3A3"
    using latin1_char by (auto simp: latin1_def list_all_iff)
  have "py_upper (concat (map lower_full s)) = py_upper s"
    using l
  proof (induction s)
    case Nil
    show ?case by simp
  next
    case (Cons c s)
    then have c: "0 \<le> c" "c < 256" and s: "latin1 s" by (simp_all add: latin1_def)
    from latin1_char [OF c] obtain l where "lower_full c = [l]" "upper_full l = upper_full c"
      by blast
    then show ?case using Cons.IH [OF s] by (simp add: py_upper_append) (simp add: py_upper_def)
  qed
  then show ?thesis using ns by (simp add: py_lower_def lower_from_no_sigma)
qed

lemma latin1_strip: "latin1 s \<Longrightarrow> latin1 (py_strip s)"
  unfolding latin1_def py_strip_def list_all_iff
  by (metis set_dropWhileD set_rev)

lemma latin1_ignore_case_upper:
  assumes "latin1 s" and "latin1 t" and "eq_ignore_case s t"
  shows "py_upper s = py_upper t"
  using assms latin1_upper_lower unfolding eq_ignore_case_def by metis

lemma create_record_id_form:
  "create_record_id row =
     IdVehicleType row @ ascii ''_'' @ py_upper (py_strip (Brand row)) @ ascii ''_'' @
     py_upper (py_strip (Model row)) @ ascii ''_'' @ IdCompany row @ ascii ''_'' @ IdFuelMaster row"
  by (simp add: create_record_id_def)

text \<open>
  C4, as the specification states it, fails: the letter \<open>k\<close> and the Kelvin sign are equal
  ignoring case (\<open>str.lower\<close> maps the sign to \<open>k\<close>), yet \<open>str.upper\<close> leaves the sign as
  it is and maps \<open>k\<close> to \<open>K\<close>, so two rows that differ in this character only get two ids.
\<close>

theorem create_record_id_case_counterexample:
  "IdVehicleType letter_k = IdVehicleType kelvin_sign \<and>
   IdCompany letter_k = IdCompany kelvin_sign \<and>
   IdFuelMaster letter_k = IdFuelMaster kelvin_sign \<and>
   eq_ignore_case (py_strip (Brand letter_k)) (py_strip (Brand kelvin_sign)) \<and>
   eq_ignore_case (py_strip (Model letter_k)) (py_strip (Model kelvin_sign)) \<and>
   create_record_id letter_k = ascii ''T5_K_ONE_C1_F1'' \<and>
   create_record_id kelvin_sign = ascii ''T5_'' @ [0x212A] @ ascii ''_ONE_C1_F1'' \<and>
   create_record_id letter_k \<noteq> create_record_id kelvin_sign"
  by code_simp

text \<open>
  C4, amended. Two records with equal \<open>IdVehicleType\<close>, \<open>IdCompany\<close> and
  \<open>IdFuelMaster\<close>, whose \<open>Brand\<close> and \<open>Model\<close> have the same upper-case form after
  stripping surrounding whitespace, get the same id from \<open>create_record_id\<close>; so do two
  such records whose \<open>Brand\<close> and \<open>Model\<close> are Latin-1 text and equal ignoring case after
  stripping. The id is the five key fields joined by underscores, \<open>Brand\<close> and \<open>Model\<close>
  stripped and in upper case.
\<close>

theorem create_record_id_same_upper_form:
  assumes "IdVehicleType r1 = IdVehicleType r2"
    and "IdCompany r1 = IdCompany r2"
    and "IdFuelMaster r1 = IdFuelMaster r2"
  shows "(py_upper (py_strip (Brand r1)) = py_upper (py_strip (Brand r2)) \<and>
          py_upper (py_strip (Model r1)) = py_upper (py_strip (Model r2)) \<longrightarrow>
            create_record_id r1 = create_record_id r2) \<and>
         (latin1 (Brand r1) \<and> latin1 (Brand r2) \<and> latin1 (Model r1) \<and> latin1 (Model r2) \<and>
          eq_ignore_case (py_strip (Brand r1)) (py_strip (Brand r2)) \<and>
          eq_ignore_case (py_strip (Model r1)) (py_strip (Model r2)) \<longrightarrow>
            create_record_id r1 = create_record_id r2) \<and>
         create_record_id r1 =
           IdVehicleType r1 @ ascii ''_'' @ py_upper (py_strip (Brand r1)) @ ascii ''_'' @
           py_upper (py_strip (Model r1)) @ ascii ''_'' @ IdCompany r1 @ ascii ''_'' @
           IdFuelMaster r1"
proof -
  have same: "create_record_id r1 = create_record_id r2"
    if "py_upper (py_strip (Brand r1)) = py_upper (py_strip (Brand r2))"
      and "py_upper (py_strip (Model r1)) = py_upper (py_strip (Model r2))"
    using that assms by (simp add: create_record_id_def)
  have "create_record_id r1 = create_record_id r2"
    if l: "latin1 (Brand r1)" "latin1 (Brand r2)" "latin1 (Model r1)" "latin1 (Model r2)"
      and b: "eq_ignore_case (py_strip (Brand r1)) (py_strip (Brand r2))"
      and m: "eq_ignore_case (py_strip (Model r1)) (py_strip (Model r2))"
  proof (rule same)
    show "py_upper (py_strip (Brand r1)) = py_upper (py_strip (Brand r2))"
      using l(1,2) b by (intro latin1_ignore_case_upper latin1_strip)
    show "py_upper (py_strip (Model r1)) = py_upper (py_strip (Model r2))"
      using l(3,4) m by (intro latin1_ignore_case_upper latin1_strip)
  qed
  with same show ?thesis by (simp add: create_record_id_form)
qed

theorem create_record_id_same_upper_form_witness:
  "latin1 (Brand citroen_lower) \<and> latin1 (Brand citroen_upper) \<and>
   latin1 (Model citroen_lower) \<and> latin1 (Model citroen_upper) \<and>
   eq_ignore_case (py_strip (Brand citroen_lower)) (py_strip (Brand citroen_upper)) \<and>
   eq_ignore_case (py_strip (Model citroen_lower)) (py_strip (Model citroen_upper)) \<and>
   py_upper (py_strip (Brand ford_lower)) = py_upper (py_strip (Brand ford_upper)) \<and>
   py_upper (py_strip (Model ford_lower)) = py_upper (py_strip (Model ford_upper)) \<and>
   create_record_id citroen_lower = create_record_id citroen_upper \<and>
   create_record_id citroen_lower = ascii ''T4_CITRO'' @ [0xCB] @ ascii ''N_C4_C1_F1'' \<and>
   create_record_id ford_lower = create_record_id ford_upper \<and>
   create_record_id ford_lower = ascii ''T1_FORD_FOCUS_C1_F1''"
proof -
  have f: "IdVehicleType citroen_lower = IdVehicleType citroen_upper"
    "IdCompany citroen_lower = IdCompany citroen_upper"
    "IdFuelMaster citroen_lower = IdFuelMaster citroen_upper"
    by (simp_all add: citroen_lower_def citroen_upper_def)
  have l: "latin1 (Brand citroen_lower)" "latin1 (Brand citroen_upper)"
    "latin1 (Model citroen_lower)" "latin1 (Model citroen_upper)"
    by code_simp+
  have b: "eq_ignore_case (py_strip (Brand citroen_lower)) (py_strip (Brand citroen_upper))"
    by code_simp
  have m: "eq_ignore_case (py_strip (Model citroen_lower)) (py_strip (Model citroen_upper))"
    by code_simp
  have v: "create_record_id citroen_lower = ascii ''T4_CITRO'' @ [0xCB] @ ascii ''N_C4_C1_F1''"
    by code_simp
  have g: "IdVehicleType ford_lower = IdVehicleType ford_upper"
    "IdCompany ford_lower = IdCompany ford_upper"
    "IdFuelMaster ford_lower = IdFuelMaster ford_upper"
    by (simp_all add: ford_lower_def ford_upper_def)
  have ub: "py_upper (py_strip (Brand ford_lower)) = py_upper (py_strip (Brand ford_upper))"
    by code_simp
  have um: "py_upper (py_strip (Model ford_lower)) = py_upper (py_strip (Model ford_upper))"
    by code_simp
  have w: "create_record_id ford_lower = ascii ''T1_FORD_FOCUS_C1_F1''"
    by code_simp
  note c = create_record_id_same_upper_form [OF f]
  note d = create_record_id_same_upper_form [OF g]
  from c l b m have c1: "create_record_id citroen_lower = create_record_id citroen_upper"
    by blast
  from d ub um have d1: "create_record_id ford_lower = create_record_id ford_upper"
    by blast
  from l b m ub um c1 v d1 w show ?thesis by (intro conjI)
qed


section \<open>The processed ledger: properties\<close>

lemma save_processed_present:
  "record_id \<in> set (get_processed_records pf) \<Longrightarrow>
     save_processed_record now record_id d pf = pf"
  by (auto simp: save_processed_record_def save_processed_body_def get_processed_records_def
      split: processed_file.splits option.splits)

lemma save_processed_twice:
  "save_processed_record now2 record_id d2 (save_processed_record now1 record_id d1 pf) =
   save_processed_record now1 record_id d1 pf"
  by (auto simp: save_processed_record_def save_processed_body_def
      split: processed_file.splits option.splits)

lemma save_processed_ids_grow:
  "length (get_processed_records (save_processed_record now record_id d pf)) \<le>
   Suc (length (get_processed_records pf))"
  by (auto simp: save_processed_record_def save_processed_body_def get_processed_records_def
      split: processed_file.splits option.splits)

lemma save_processed_entries_grow:
  "length (processed_entries (save_processed_record now record_id d pf)) \<le>
   Suc (length (processed_entries pf))"
  by (auto simp: save_processed_record_def save_processed_body_def processed_entries_def
      split: processed_file.splits option.splits)

lemma save_processed_fold:
  "fold (\<lambda>(now, d). save_processed_record now record_id d) ((now1, d1) # marks) pf =
   save_processed_record now1 record_id d1 pf"
  by (induction marks arbitrary: now1 d1 pf rule: rev_induct) (auto simp: save_processed_twice)

lemma save_processed_member:
  "holds_ledger pf \<Longrightarrow>
     record_id \<in> set (get_processed_records (save_processed_record now record_id d pf))"
  by (auto simp: holds_ledger_def save_processed_record_def save_processed_body_def
      get_processed_records_def split: processed_file.splits option.splits)

text \<open>
  C3. \<open>save_processed_record\<close> on an id the processed ledger already lists leaves the
  file as it was: no second id and no second timestamped entry. However many times the
  same id is marked, with whatever timestamps and payloads, the list of processed ids and
  the list of entries each grow by at most one.
\<close>

theorem save_processed_record_idempotent:
  "(record_id \<in> set (get_processed_records pf) \<longrightarrow>
      save_processed_record now record_id d pf = pf) \<and>
   save_processed_record now2 record_id d2 (save_processed_record now record_id d pf) =
     save_processed_record now record_id d pf \<and>
   length (get_processed_records
       (fold (\<lambda>(now, d). save_processed_record now record_id d) marks pf)) \<le>
     length (get_processed_records pf) + 1 \<and>
   length (processed_entries
       (fold (\<lambda>(now, d). save_processed_record now record_id d) marks pf)) \<le>
     length (processed_entries pf) + 1"
proof (cases marks)
  case Nil
  then show ?thesis
    by (simp add: save_processed_present save_processed_twice)
next
  case (Cons c cs)
  obtain now1 d1 where c: "c = (now1, d1)" by (cases c)
  have "fold (\<lambda>(now, d). save_processed_record now record_id d) marks pf =
      save_processed_record now1 record_id d1 pf"
    unfolding Cons c by (rule save_processed_fold)
  then show ?thesis
    using save_processed_ids_grow [of now1 record_id d1 pf]
      save_processed_entries_grow [of now1 record_id d1 pf]
    by (simp add: save_processed_present save_processed_twice)
qed

theorem save_processed_record_idempotent_witness:
  "(ascii ''T1_FORD_FOCUS_C1_F1'') \<in>
     set (get_processed_records (ProcessedDoc (Some [ascii ''T1_FORD_FOCUS_C1_F1'']) (Some []))) \<and>
   save_processed_record (ascii ''t1'') (ascii ''T1_FORD_FOCUS_C1_F1'') ford_upper
     (ProcessedDoc (Some [ascii ''T1_FORD_FOCUS_C1_F1'']) (Some [])) =
   ProcessedDoc (Some [ascii ''T1_FORD_FOCUS_C1_F1'']) (Some []) \<and>
   length (get_processed_records
     (fold (\<lambda>(now, d). save_processed_record now (ascii ''T1_FORD_FOCUS_C1_F1'') d)
        [(ascii ''t0'', ford_lower), (ascii ''t1'', ford_upper), (ascii ''t2'', ford_upper)] NoProcessedFile)) \<le> 1"
proof -
  let ?doc = "ProcessedDoc (Some [ascii ''T1_FORD_FOCUS_C1_F1'']) (Some [])"
  let ?marks = "[(ascii ''t0'', ford_lower), (ascii ''t1'', ford_upper), (ascii ''t2'', ford_upper)]"
  have m: "(ascii ''T1_FORD_FOCUS_C1_F1'') \<in> set (get_processed_records ?doc)"
    by (simp add: get_processed_records_def)
  have e: "length (get_processed_records NoProcessedFile) = 0"
    by (simp add: get_processed_records_def)
  have "(ascii ''T1_FORD_FOCUS_C1_F1'') \<in> set (get_processed_records ?doc) \<longrightarrow>
      save_processed_record (ascii ''t1'') (ascii ''T1_FORD_FOCUS_C1_F1'') ford_upper ?doc = ?doc"
    by (rule conjunct1 [OF save_processed_record_idempotent
          [of "(ascii ''T1_FORD_FOCUS_C1_F1'')" ?doc "(ascii ''t1'')" ford_upper "(ascii ''t2'')" ford_upper ?marks]])
  with m have same: "save_processed_record (ascii ''t1'') (ascii ''T1_FORD_FOCUS_C1_F1'') ford_upper ?doc = ?doc"
    by (rule rev_mp)
  have "length (get_processed_records
      (fold (\<lambda>(now, d). save_processed_record now (ascii ''T1_FORD_FOCUS_C1_F1'') d) ?marks
         NoProcessedFile)) \<le> length (get_processed_records NoProcessedFile) + 1"
    by (rule conjunct1 [OF conjunct2 [OF conjunct2 [OF save_processed_record_idempotent
          [of "(ascii ''T1_FORD_FOCUS_C1_F1'')" NoProcessedFile "(ascii ''t0'')" ford_lower "(ascii ''t1'')" ford_upper
              ?marks]]]])
  then have once: "length (get_processed_records
      (fold (\<lambda>(now, d). save_processed_record now (ascii ''T1_FORD_FOCUS_C1_F1'') d) ?marks
         NoProcessedFile)) \<le> 1"
    unfolding e by (simp only: add_0)
  from m same once show ?thesis by (intro conjI)
qed


section \<open>The failed ledger: properties\<close>

lemma save_failed_appends:
  "holds_failed_ledger ff \<Longrightarrow>
     failed_entries (save_failed_record now record_id d msg ff) =
       failed_entries ff @
         [\<lparr>failed_id = record_id, failed_data = d, failed_error = msg, failed_at = now\<rparr>] \<and>
     holds_failed_ledger (save_failed_record now record_id d msg ff)"
  by (auto simp: holds_failed_ledger_def save_failed_record_def save_failed_body_def
      failed_entries_def split: failed_file.splits option.splits)

text \<open>
  C7. On a failed ledger that is absent or readable, every call of \<open>save_failed_record\<close>
  appends one entry (id, payload, error message, timestamp) at the end, whatever the
  ledger already holds for that id: after two marks for the same id the ledger ends with
  the two entries, and holds two more entries for that id than before.
\<close>

theorem save_failed_record_appends:
  assumes "holds_failed_ledger ff"
  shows "failed_entries (save_failed_record now record_id d msg ff) =
           failed_entries ff @
             [\<lparr>failed_id = record_id, failed_data = d, failed_error = msg, failed_at = now\<rparr>] \<and>
         failed_entries (save_failed_record now2 record_id d2 msg2
             (save_failed_record now record_id d msg ff)) =
           failed_entries ff @
             [\<lparr>failed_id = record_id, failed_data = d, failed_error = msg, failed_at = now\<rparr>,
              \<lparr>failed_id = record_id, failed_data = d2, failed_error = msg2, failed_at = now2\<rparr>] \<and>
         length (filter (\<lambda>en. failed_id en = record_id)
             (failed_entries (save_failed_record now2 record_id d2 msg2
                (save_failed_record now record_id d msg ff)))) =
           length (filter (\<lambda>en. failed_id en = record_id) (failed_entries ff)) + 2"
proof -
  have one: "failed_entries (save_failed_record now record_id d msg ff) =
      failed_entries ff @
        [\<lparr>failed_id = record_id, failed_data = d, failed_error = msg, failed_at = now\<rparr>]"
    and ok: "holds_failed_ledger (save_failed_record now record_id d msg ff)"
    using save_failed_appends [OF assms] by simp_all
  have two: "failed_entries (save_failed_record now2 record_id d2 msg2
             (save_failed_record now record_id d msg ff)) =
           failed_entries ff @
             [\<lparr>failed_id = record_id, failed_data = d, failed_error = msg, failed_at = now\<rparr>,
              \<lparr>failed_id = record_id, failed_data = d2, failed_error = msg2, failed_at = now2\<rparr>]"
    using save_failed_appends [OF ok, of now2 record_id d2 msg2] by (simp add: one)
  show ?thesis by (simp add: one two)
qed

theorem save_failed_record_appends_witness:
  "holds_failed_ledger NoFailedFile \<and>
   failed_entries (save_failed_record (ascii ''t1'') (ascii ''T2_TOYOTA_COROLLA_C1_F1'') corolla (ascii ''Timeout'')
       (save_failed_record (ascii ''t0'') (ascii ''T2_TOYOTA_COROLLA_C1_F1'') corolla (ascii ''Timeout'') NoFailedFile)) =
     [\<lparr>failed_id = ascii ''T2_TOYOTA_COROLLA_C1_F1'', failed_data = corolla,
       failed_error = ascii ''Timeout'', failed_at = ascii ''t0''\<rparr>,
      \<lparr>failed_id = ascii ''T2_TOYOTA_COROLLA_C1_F1'', failed_data = corolla,
       failed_error = ascii ''Timeout'', failed_at = ascii ''t1''\<rparr>]"
proof -
  have h: "holds_failed_ledger NoFailedFile"
    by (simp add: holds_failed_ledger_def)
  have e: "failed_entries NoFailedFile = []"
    by (simp add: failed_entries_def)
  from save_failed_record_appends
    [OF h, of "(ascii ''t0'')" "(ascii ''T2_TOYOTA_COROLLA_C1_F1'')" corolla "(ascii ''Timeout'')"
       "(ascii ''t1'')" corolla "(ascii ''Timeout'')"] h e
  show ?thesis by simp
qed


section \<open>Unprocessed records: properties\<close>

lemma unprocessed_rows_empty_ledger:
  "unprocessed_rows [] df = map (\<lambda>row. (create_record_id row, row)) df"
  by (induction df) simp_all

text \<open>
  C10. When the processed file is absent, or present but not loadable,
  \<open>get_processed_records\<close> returns the empty list; \<open>get_unprocessed_records\<close> then returns
  every row that \<open>load_csv_data\<close> yields, each with its id, in row order.
\<close>

theorem get_processed_records_missing_or_corrupt:
  assumes "pf = NoProcessedFile \<or> pf = BadProcessedFile"
    and "load_csv_data path c = Inr df"
  shows "get_processed_records pf = [] \<and>
         get_unprocessed_records path c pf = Inr (map (\<lambda>row. (create_record_id row, row)) df)"
proof -
  have "get_processed_records pf = []"
    using assms(1) by (auto simp: get_processed_records_def)
  then show ?thesis
    using assms(2) by (simp add: get_unprocessed_records_def unprocessed_rows_empty_ledger)
qed

theorem get_processed_records_missing_or_corrupt_witness:
  "get_processed_records BadProcessedFile = [] \<and>
   get_unprocessed_records (ascii ''clases_vehiculos.csv'') (table_of [ford_lower, ford_upper, corolla])
       BadProcessedFile =
     Inr [(create_record_id ford_lower, ford_lower), (create_record_id ford_upper, ford_upper),
          (create_record_id corolla, corolla)]"
proof -
  have l: "load_csv_data (ascii ''clases_vehiculos.csv'') (table_of [ford_lower, ford_upper, corolla]) =
      Inr [ford_lower, ford_upper, corolla]"
    by code_simp
  from get_processed_records_missing_or_corrupt [OF _ l, of BadProcessedFile]
  show ?thesis by simp
qed

text \<open>
  C2, as the specification states it, fails: for the three rows of the scenario (two
  sharing an id, one distinct) and no processed file, \<open>get_unprocessed_records\<close> returns
  three entries, not two.
\<close>

theorem unprocessed_same_id_counterexample:
  "map_sum id (map fst)
     (get_unprocessed_records (ascii ''clases_vehiculos.csv'')
        (table_of [ford_lower, ford_upper, corolla]) NoProcessedFile) =
     Inr [ascii ''T1_FORD_FOCUS_C1_F1'', ascii ''T1_FORD_FOCUS_C1_F1'', ascii ''T2_TOYOTA_COROLLA_C1_F1''] \<and>
   map_sum id length
     (get_unprocessed_records (ascii ''clases_vehiculos.csv'')
        (table_of [ford_lower, ford_upper, corolla]) NoProcessedFile) \<noteq> Inr 2"
  by code_simp

text \<open>
  C2, amended. For a CSV of three valid rows of which the first two share an id and the
  third has another, with an empty processed ledger, \<open>get_unprocessed_records\<close> returns
  three entries, one per row in row order: both rows that share the id appear, with that
  same id, so the result holds two distinct ids.
\<close>

theorem unprocessed_keeps_rows_sharing_an_id:
  assumes "load_csv_data path c = Inr [r1, r2, r3]"
    and "get_processed_records pf = []"
    and "create_record_id r1 = create_record_id r2"
    and "create_record_id r3 \<noteq> create_record_id r1"
  shows "get_unprocessed_records path c pf =
           Inr [(create_record_id r1, r1), (create_record_id r1, r2), (create_record_id r3, r3)] \<and>
         length [(create_record_id r1, r1), (create_record_id r1, r2), (create_record_id r3, r3)] = 3 \<and>
         card (set (map fst
           [(create_record_id r1, r1), (create_record_id r1, r2), (create_record_id r3, r3)])) = 2"
proof -
  have "get_unprocessed_records path c pf =
      Inr [(create_record_id r1, r1), (create_record_id r2, r2), (create_record_id r3, r3)]"
    using assms(1,2) by (simp add: get_unprocessed_records_def unprocessed_rows_empty_ledger)
  then show ?thesis using assms(3,4) by simp
qed

theorem unprocessed_keeps_rows_sharing_an_id_witness:
  "get_unprocessed_records (ascii ''clases_vehiculos.csv'')
       (table_of [ford_lower, ford_upper, corolla]) NoProcessedFile =
     Inr [(create_record_id ford_lower, ford_lower), (create_record_id ford_lower, ford_upper),
          (create_record_id corolla, corolla)] \<and>
   create_record_id ford_lower = create_record_id ford_upper \<and>
   create_record_id corolla \<noteq> create_record_id ford_lower"
proof -
  have l: "load_csv_data (ascii ''clases_vehiculos.csv'')
      (table_of [ford_lower, ford_upper, corolla]) = Inr [ford_lower, ford_upper, corolla]"
    by code_simp
  have e: "get_processed_records NoProcessedFile = []"
    by (simp add: get_processed_records_def)
  have s: "create_record_id ford_lower = create_record_id ford_upper"
    by code_simp
  have d: "create_record_id corolla \<noteq> create_record_id ford_lower"
    by code_simp
  from unprocessed_keeps_rows_sharing_an_id [OF l e s d] s d
  show ?thesis by simp
qed


section \<open>The remote submitter: properties\<close>

lemma send_attempts_frame:
  "frame w (snd (send_attempts e d a w))"
proof (induction e d a w rule: send_attempts.induct)
  case (1 e d attempt w)
  show ?case
    apply (subst send_attempts.simps)
    using "1.IH"
    apply (auto split: if_splits http_result.splits option.splits simp: Let_def frame_def)
    done
qed

lemma send_vehicle_data_frame: "send_vehicle_data e d w = (r, w1) \<Longrightarrow> frame w w1"
  using send_attempts_frame [of w e d 0] by (simp add: send_vehicle_data_def)

lemma send_attempts_posts:
  "set (posts (snd (send_attempts e d a w))) =
     (if a < retries e then insert d (set (posts w)) else set (posts w))"
proof (induction e d a w rule: send_attempts.induct)
  case (1 e d attempt w)
  show ?case
    apply (subst send_attempts.simps)
    using "1.IH"
    apply (auto split: if_splits http_result.splits option.splits simp: Let_def)
    done
qed

lemma send_vehicle_data_posts:
  "0 < retries e \<Longrightarrow> send_vehicle_data e d w = (r, w1) \<Longrightarrow> set (posts w1) = insert d (set (posts w))"
  using send_attempts_posts [of e d 0 w] by (simp add: send_vehicle_data_def)

lemma send_vehicle_data_status_ge_400:
  assumes "0 < retries e"
    and "post e (length (posts w)) d = Response status_code txt js"
    and "400 \<le> status_code"
    and "status_code \<noteq> 409"
  shows "send_vehicle_data e d w =
    ((False, None, Some (ascii ''Error del cliente ('' @ str_nat status_code @ ascii ''): '' @ txt)),
     w\<lparr>posts := posts w @ [d]\<rparr>)"
  using assms unfolding send_vehicle_data_def
  by (subst send_attempts.simps) (simp add: Let_def)

lemma send_vehicle_data_status_409:
  assumes "0 < retries e"
    and "post e (length (posts w)) d = Response 409 txt js"
  shows "send_vehicle_data e d w =
    ((False, None, Some (ascii ''Datos duplicados o conflicto: '' @ txt)), w\<lparr>posts := posts w @ [d]\<rparr>)"
  using assms unfolding send_vehicle_data_def
  by (subst send_attempts.simps) (simp add: Let_def)

text \<open>
  The branch with the backoff is the one for a status below 400 other than 200 and 201:
  two such answers and then a 200 give a success after pauses of \<open>2 ^ 0\<close> and \<open>2 ^ 1\<close>
  seconds.
\<close>

lemma send_vehicle_data_retries_below_400:
  assumes "retries e = 3"
    and "post e (length (posts w)) d = Response c0 t0 j0"
    and "post e (length (posts w) + 1) d = Response c1 t1 j1"
    and "post e (length (posts w) + 2) d = Response 200 t2 None"
    and "c0 < 400" and "c0 \<noteq> 200" and "c0 \<noteq> 201"
    and "c1 < 400" and "c1 \<noteq> 200" and "c1 \<noteq> 201"
  shows "send_vehicle_data e d w =
    ((True, Some StatusSuccess, None),
     w\<lparr>posts := posts w @ [d, d, d], sleeps := sleeps w @ [Backoff 0, Backoff 1]\<rparr>)"
  using assms unfolding send_vehicle_data_def
  apply (subst send_attempts.simps)
  apply (simp add: Let_def)
  apply (subst send_attempts.simps)
  apply (simp add: Let_def)
  apply (subst send_attempts.simps)
  apply (simp add: Let_def)
  done

text \<open>
  C1. With three attempts configured and a remote that answers status 500 to the first
  two requests and 200 to the third, \<open>send_vehicle_data\<close> does not reach the third
  request: the first answer takes the branch \<open>status_code >= 400\<close>, and the call returns
  a failure with the client-error message after one request and no pause.
\<close>

theorem send_vehicle_data_5xx_not_retried:
  "send_vehicle_data (scripted_env two_failures_then_ok) sample_wire (fresh_world NoCsvFile) =
     ((False, None, Some (ascii ''Error del cliente (500): Internal Server Error'')),
      \<lparr>csv = NoCsvFile, processed = NoProcessedFile, failed = NoFailedFile,
       posts = [sample_wire], sleeps = [], calls = []\<rparr>)"
  by code_simp


section \<open>The batch orchestrator: properties\<close>

lemma py_in_nonempty: "py_in needle msg \<Longrightarrow> needle \<noteq> [] \<Longrightarrow> msg \<noteq> []"
  by (cases msg) auto

lemma duplicate_text_is_duplicate_error:
  assumes "py_in (ascii ''duplicate'') (py_lower msg) \<or> py_in (ascii ''conflict'') (py_lower msg) \<or> py_in (ascii ''409'') msg"
  shows "is_duplicate_error (Some msg)"
proof -
  have "msg \<noteq> []" using assms by (auto simp: py_lower_def ascii_def)
  then show ?thesis using assms by (simp add: is_duplicate_error_def)
qed

text \<open>
  C5. When the submission of a record returns a failure whose error text contains
  \<open>duplicate\<close> or \<open>conflict\<close> (in any case) or \<open>409\<close>, the orchestrator adds one to the
  duplicate counter and leaves the failed and succeeded counters, the error list and the
  failed ledger as they were; it calls \<open>save_processed_record\<close> for the record, which
  lists the id in the processed ledger when that ledger is absent or readable.
\<close>

theorem duplicate_signal_marks_processed:
  assumes fmt: "format_vehicle_data (to_float e) record_data = Inr formatted"
    and snd: "send_vehicle_data e formatted w = ((False, response, Some msg), w1)"
    and dup: "py_in (ascii ''duplicate'') (py_lower msg) \<or> py_in (ascii ''conflict'') (py_lower msg) \<or>
      py_in (ascii ''409'') msg"
  shows "skipped_duplicates (fst (process_record e (record_id, record_data) (summary, w))) =
           skipped_duplicates summary + 1 \<and>
         failed_records (fst (process_record e (record_id, record_data) (summary, w))) =
           failed_records summary \<and>
         processed_successfully (fst (process_record e (record_id, record_data) (summary, w))) =
           processed_successfully summary \<and>
         errors (fst (process_record e (record_id, record_data) (summary, w))) = errors summary \<and>
         failed (snd (process_record e (record_id, record_data) (summary, w))) = failed w \<and>
         processed (snd (process_record e (record_id, record_data) (summary, w))) =
           save_processed_record (clock e (length (calls w))) record_id record_data (processed w) \<and>
         (holds_ledger (processed w) \<longrightarrow>
            record_id \<in> set (get_processed_records
              (processed (snd (process_record e (record_id, record_data) (summary, w))))))"
proof -
  have d: "is_duplicate_error (Some msg)"
    using dup by (rule duplicate_text_is_duplicate_error)
  have f: "frame w w1" using snd by (rule send_vehicle_data_frame)
  have p: "process_record e (record_id, record_data) (summary, w) =
      (summary\<lparr>skipped_duplicates := skipped_duplicates summary + 1\<rparr>,
       sleep BetweenRecords (mark_processed e record_id record_data w1))"
    using fmt snd d by (simp add: process_record_def)
  show ?thesis
    using f by (simp add: p sleep_def mark_processed_def frame_def save_processed_member)
qed

theorem duplicate_signal_marks_processed_witness:
  "skipped_duplicates (fst (process_record (scripted_env (always (Response 409 (ascii ''already exists'') None)))
       (ascii ''T1_FORD_FOCUS_C1_F1'', ford_lower) (empty_batch_summary, fresh_world NoCsvFile))) = 1 \<and>
   failed_records (fst (process_record (scripted_env (always (Response 409 (ascii ''already exists'') None)))
       (ascii ''T1_FORD_FOCUS_C1_F1'', ford_lower) (empty_batch_summary, fresh_world NoCsvFile))) = 0 \<and>
   processed_successfully (fst (process_record (scripted_env (always (Response 409 (ascii ''already exists'') None)))
       (ascii ''T1_FORD_FOCUS_C1_F1'', ford_lower) (empty_batch_summary, fresh_world NoCsvFile))) = 0 \<and>
   failed (snd (process_record (scripted_env (always (Response 409 (ascii ''already exists'') None)))
       (ascii ''T1_FORD_FOCUS_C1_F1'', ford_lower) (empty_batch_summary, fresh_world NoCsvFile))) = NoFailedFile \<and>
   (ascii ''T1_FORD_FOCUS_C1_F1'') \<in> set (get_processed_records (processed (snd (process_record
       (scripted_env (always (Response 409 (ascii ''already exists'') None)))
       (ascii ''T1_FORD_FOCUS_C1_F1'', ford_lower) (empty_batch_summary, fresh_world NoCsvFile)))))"
proof -
  let ?e = "scripted_env (always (Response 409 (ascii ''already exists'') None))"
  have fmt: "format_vehicle_data (to_float ?e) ford_lower = Inr sample_wire"
    by code_simp
  have snd: "send_vehicle_data ?e sample_wire (fresh_world NoCsvFile) =
      ((False, None, Some (ascii ''Datos duplicados o conflicto: already exists'')),
       (fresh_world NoCsvFile)\<lparr>posts := [sample_wire]\<rparr>)"
    by code_simp
  have dup: "py_in (ascii ''duplicate'') (py_lower (ascii ''Datos duplicados o conflicto: already exists'')) \<or>
      py_in (ascii ''conflict'') (py_lower (ascii ''Datos duplicados o conflicto: already exists'')) \<or>
      py_in (ascii ''409'') (ascii ''Datos duplicados o conflicto: already exists'')"
    by code_simp
  have h: "holds_ledger (processed (fresh_world NoCsvFile))"
    by (simp add: holds_ledger_def fresh_world_def)
  have z: "skipped_duplicates empty_batch_summary = 0" "failed_records empty_batch_summary = 0"
    "processed_successfully empty_batch_summary = 0" "failed (fresh_world NoCsvFile) = NoFailedFile"
    by (simp_all add: empty_batch_summary_def fresh_world_def)
  from duplicate_signal_marks_processed
    [OF fmt snd dup, of "(ascii ''T1_FORD_FOCUS_C1_F1'')" empty_batch_summary] h z
  show ?thesis by (simp add: save_processed_member)
qed

lemma wires_of_append: "wires_of e (a @ b) = wires_of e a @ wires_of e b"
  by (simp add: wires_of_def List.map_filter_def)

lemma wires_of_Cons: "wires_of e (r # rs) = wires_of e [r] @ wires_of e rs"
  using wires_of_append [of e "[r]" rs] by simp

lemma process_record_counts:
  "classified (fst (process_record e rec st)) = classified (fst st) + 1 \<and>
   length (errors (fst (process_record e rec st))) + failed_records (fst st) =
     length (errors (fst st)) + failed_records (fst (process_record e rec st))"
proof -
  obtain record_id record_data where r: "rec = (record_id, record_data)" by (cases rec)
  obtain summary w where s: "st = (summary, w)" by (cases st)
  show ?thesis
  proof (cases "format_vehicle_data (to_float e) record_data")
    case (Inl exn)
    then show ?thesis
      by (simp add: r s process_record_def classified_def)
  next
    case (Inr formatted)
    obtain success response err w1
      where sv: "send_vehicle_data e formatted w = ((success, response, err), w1)"
      by (metis prod.exhaust)
    show ?thesis
      using Inr sv by (simp add: r s process_record_def classified_def)
  qed
qed

lemma process_record_trace:
  "map call_record (calls (snd (process_record e rec st))) =
     map call_record (calls (snd st)) @ [rec] \<and>
   length (filter is_failed_call (calls (snd (process_record e rec st)))) +
       failed_records (fst st) =
     length (filter is_failed_call (calls (snd st))) +
       failed_records (fst (process_record e rec st)) \<and>
   (0 < retries e \<longrightarrow>
      set (posts (snd (process_record e rec st))) = set (posts (snd st)) \<union> set (wires_of e [rec]))"
proof -
  obtain record_id record_data where r: "rec = (record_id, record_data)" by (cases rec)
  obtain summary w where s: "st = (summary, w)" by (cases st)
  show ?thesis
  proof (cases "format_vehicle_data (to_float e) record_data")
    case (Inl exn)
    then show ?thesis
      by (simp add: r s process_record_def mark_failed_def call_record_def is_failed_call_def
          wires_of_def List.map_filter_def)
  next
    case (Inr formatted)
    obtain success response err w1
      where sv: "send_vehicle_data e formatted w = ((success, response, err), w1)"
      by (metis prod.exhaust)
    have c: "calls w1 = calls w"
      using send_vehicle_data_frame [OF sv] by (simp add: frame_def)
    have p: "0 < retries e \<longrightarrow> set (posts w1) = insert formatted (set (posts w))"
      using send_vehicle_data_posts [OF _ sv] by blast
    show ?thesis
      using Inr sv c p
      by (simp add: r s process_record_def mark_failed_def mark_processed_def sleep_def
          call_record_def is_failed_call_def wires_of_def List.map_filter_def)
  qed
qed

lemma batch_loop_counts:
  "classified (fst (batch_loop e batch st)) = classified (fst st) + length batch \<and>
   length (errors (fst (batch_loop e batch st))) + failed_records (fst st) =
     length (errors (fst st)) + failed_records (fst (batch_loop e batch st))"
proof (induction batch arbitrary: st)
  case Nil
  show ?case by simp
next
  case (Cons rec batch)
  show ?case
    using Cons.IH [of "process_record e rec st"] process_record_counts [of e rec st]
    by simp
qed

lemma batch_loop_trace:
  "map call_record (calls (snd (batch_loop e batch st))) =
     map call_record (calls (snd st)) @ batch \<and>
   length (filter is_failed_call (calls (snd (batch_loop e batch st)))) +
       failed_records (fst st) =
     length (filter is_failed_call (calls (snd st))) +
       failed_records (fst (batch_loop e batch st)) \<and>
   (0 < retries e \<longrightarrow>
      set (posts (snd (batch_loop e batch st))) = set (posts (snd st)) \<union> set (wires_of e batch))"
proof (induction batch arbitrary: st)
  case Nil
  show ?case by (simp add: wires_of_def List.map_filter_def)
next
  case (Cons rec batch)
  show ?case
    using Cons.IH [of "process_record e rec st"] process_record_trace [of e rec st]
    by (auto simp: wires_of_Cons [of e rec batch])
qed

lemma process_batch_counts:
  "classified (fst (process_batch e batch w)) = length batch \<and>
   length (errors (fst (process_batch e batch w))) =
     failed_records (fst (process_batch e batch w))"
  using batch_loop_counts [of e batch "(empty_batch_summary, w)"]
  by (simp add: process_batch_def empty_batch_summary_def classified_def)

lemma process_batch_trace:
  "map call_record (calls (snd (process_batch e batch w))) = map call_record (calls w) @ batch \<and>
   length (filter is_failed_call (calls (snd (process_batch e batch w)))) =
     length (filter is_failed_call (calls w)) + failed_records (fst (process_batch e batch w)) \<and>
   (0 < retries e \<longrightarrow>
      set (posts (snd (process_batch e batch w))) = set (posts w) \<union> set (wires_of e batch))"
  using batch_loop_trace [of e batch "(empty_batch_summary, w)"]
  by (simp add: process_batch_def empty_batch_summary_def)

lemma batches_from_counts:
  "0 < batch_size e \<Longrightarrow>
   run_classified (fst (batches_from e records i st)) =
     run_classified (fst st) + (length records - i) \<and>
   length (errors (fst (batches_from e records i st))) + failed_records (fst st) =
     length (errors (fst st)) + failed_records (fst (batches_from e records i st)) \<and>
   total_records (fst (batches_from e records i st)) = total_records (fst st) \<and>
   map call_record (calls (snd (batches_from e records i st))) =
     map call_record (calls (snd st)) @ drop i records \<and>
   length (filter is_failed_call (calls (snd (batches_from e records i st)))) +
       failed_records (fst st) =
     length (filter is_failed_call (calls (snd st))) +
       failed_records (fst (batches_from e records i st)) \<and>
   (0 < retries e \<longrightarrow>
      set (posts (snd (batches_from e records i st))) =
        set (posts (snd st)) \<union> set (wires_of e (drop i records)))"
proof (induction e records i st rule: batches_from.induct)
  case (1 e records i st)
  obtain summary w where s: "st = (summary, w)" by (cases st)
  show ?case
  proof (cases "i < length records")
    case False
    then have "batches_from e records i st = st"
      by (subst batches_from.simps) simp
    then show ?thesis using False by (simp add: wires_of_def List.map_filter_def)
  next
    case True
    define batch where "batch = take (batch_size e) (drop i records)"
    obtain b w1 where pb: "process_batch e batch w = (b, w1)"
      by (cases "process_batch e batch w")
    define w2 where "w2 = (if i + batch_size e < length records then sleep BetweenBatches w1 else w1)"
    define sm where "sm = add_batch summary b"
    define nxt where "nxt = batches_from e records (i + batch_size e) (sm, w2)"
    have ih: "run_classified (fst nxt) = run_classified sm + (length records - (i + batch_size e))"
      "length (errors (fst nxt)) + failed_records sm = length (errors sm) + failed_records (fst nxt)"
      "total_records (fst nxt) = total_records sm"
      "map call_record (calls (snd nxt)) =
         map call_record (calls w2) @ drop (i + batch_size e) records"
      "length (filter is_failed_call (calls (snd nxt))) + failed_records sm =
         length (filter is_failed_call (calls w2)) + failed_records (fst nxt)"
      "0 < retries e \<longrightarrow>
         set (posts (snd nxt)) = set (posts w2) \<union> set (wires_of e (drop (i + batch_size e) records))"
      using "1.IH" [of summary w b w1] True "1.prems" s pb
      unfolding nxt_def sm_def w2_def batch_def by simp_all
    have unf: "batches_from e records i st = nxt"
      using True "1.prems" s pb unfolding nxt_def sm_def w2_def batch_def
      by (subst batches_from.simps) simp
    have len: "length batch = min (batch_size e) (length records - i)"
      by (simp add: batch_def)
    have pbc: "classified b = length batch" "length (errors b) = failed_records b"
      using process_batch_counts [of e batch w] pb by simp_all
    have pbt: "map call_record (calls w1) = map call_record (calls w) @ batch"
      "length (filter is_failed_call (calls w1)) =
         length (filter is_failed_call (calls w)) + failed_records b"
      "0 < retries e \<longrightarrow> set (posts w1) = set (posts w) \<union> set (wires_of e batch)"
      using process_batch_trace [of e batch w] pb by simp_all
    have split: "drop i records = batch @ drop (i + batch_size e) records"
      unfolding batch_def by (metis add.commute append_take_drop_id drop_drop)
    have w2: "calls w2 = calls w1" "posts w2 = posts w1"
      by (simp_all add: w2_def sleep_def)
    have wires: "wires_of e (drop i records) =
        wires_of e batch @ wires_of e (drop (i + batch_size e) records)"
      using split wires_of_append by metis
    have sm: "run_classified sm = run_classified summary + classified b"
      "failed_records sm = failed_records summary + failed_records b"
      "length (errors sm) = length (errors summary) + length (errors b)"
      "total_records sm = total_records summary"
      by (simp_all add: sm_def add_batch_def run_classified_def classified_def)
    have c1: "run_classified (fst nxt) = run_classified summary + (length records - i)"
      using ih(1) sm(1) pbc(1) len True by (simp add: min_def split: if_splits)
    have c2: "length (errors (fst nxt)) + failed_records summary =
        length (errors summary) + failed_records (fst nxt)"
      using ih(2) sm(2,3) pbc(2) by simp
    have c3: "total_records (fst nxt) = total_records summary"
      using ih(3) sm(4) by simp
    have c4: "map call_record (calls (snd nxt)) = map call_record (calls w) @ drop i records"
      using ih(4) pbt(1) w2(1) split by simp
    have c5: "length (filter is_failed_call (calls (snd nxt))) + failed_records summary =
        length (filter is_failed_call (calls w)) + failed_records (fst nxt)"
      using ih(5) pbt(2) w2(1) sm(2) by simp
    have c6: "0 < retries e \<longrightarrow>
        set (posts (snd nxt)) = set (posts w) \<union> set (wires_of e (drop i records))"
      using ih(6) pbt(3) w2(2) wires by auto
    show ?thesis
      unfolding unf using c1 c2 c3 c4 c5 c6 by (simp add: s)
  qed
qed

text \<open>
  C6. In a run with a positive batch size, every unprocessed record is handled exactly
  once, in the order of the sequence and whatever happened to the records before it: the
  ledger calls the run makes are for exactly the unprocessed records, one call per record
  with its id and payload, in order; with at least one attempt configured, the wire
  records sent are exactly those of the records that format. The summary counts each
  record under exactly one of its three counters, the failed counter is the number of
  calls to the failed ledger, and the error list has one string per failed record. A
  record whose formatting raises, and a record whose submission fails without a duplicate
  signal, each add one to the failed counter and one string to the error list.
\<close>

theorem per_record_failures_do_not_abort:
  assumes un: "get_unprocessed_records (csv_path e) (csv w) (processed w) = Inr records"
    and bs: "0 < batch_size e"
  shows "map call_record (calls (snd (process_all_vehicles e w))) =
           map call_record (calls w) @ records \<and>
         (0 < retries e \<longrightarrow>
            set (posts (snd (process_all_vehicles e w))) =
              set (posts w) \<union> set (wires_of e records)) \<and>
         total_records (fst (process_all_vehicles e w)) = length records \<and>
         processed_successfully (fst (process_all_vehicles e w)) +
           failed_records (fst (process_all_vehicles e w)) +
           skipped_duplicates (fst (process_all_vehicles e w)) = length records \<and>
         length (filter is_failed_call (calls (snd (process_all_vehicles e w)))) =
           length (filter is_failed_call (calls w)) +
           failed_records (fst (process_all_vehicles e w)) \<and>
         length (errors (fst (process_all_vehicles e w))) =
           failed_records (fst (process_all_vehicles e w)) \<and>
         (format_vehicle_data (to_float e) record_data = Inl exn \<longrightarrow>
            process_record e (record_id, record_data) (s, w0) =
              (s\<lparr>failed_records := failed_records s + 1,
                 errors := errors s @
                   [ascii ''Error inesperado procesando '' @ record_id @ ascii '': '' @ exn]\<rparr>,
               mark_failed e record_id record_data exn w0)) \<and>
         (format_vehicle_data (to_float e) data2 = Inr formatted \<and>
          send_vehicle_data e formatted w2 = ((False, response, err), w3) \<and>
          \<not> is_duplicate_error err \<longrightarrow>
            process_record e (id2, data2) (s2, w2) =
              (s2\<lparr>failed_records := failed_records s2 + 1,
                  errors := errors s2 @
                    [ascii ''Error procesando '' @ id2 @ ascii '': '' @ str_error err]\<rparr>,
               sleep BetweenRecords (mark_failed e id2 data2 (error_or_unknown err) w3)))"
proof -
  let ?start = "empty_run_summary\<lparr>total_records := length records\<rparr>"
  let ?run = "batches_from e records 0 (?start, w)"
  have run: "process_all_vehicles e w = ?run"
  proof (cases "records = []")
    case True
    then have "batches_from e records 0 (?start, w) = (?start, w)"
      by (subst batches_from.simps) simp
    then show ?thesis using un True by (simp add: process_all_vehicles_def)
  next
    case False
    then show ?thesis using un bs by (simp add: process_all_vehicles_def)
  qed
  have c: "run_classified (fst ?run) = length records \<and>
      length (errors (fst ?run)) = failed_records (fst ?run) \<and>
      total_records (fst ?run) = length records \<and>
      map call_record (calls (snd ?run)) = map call_record (calls w) @ records \<and>
      length (filter is_failed_call (calls (snd ?run))) =
        length (filter is_failed_call (calls w)) + failed_records (fst ?run) \<and>
      (0 < retries e \<longrightarrow> set (posts (snd ?run)) = set (posts w) \<union> set (wires_of e records))"
    using batches_from_counts [OF bs, of records 0 "(?start, w)"]
    by (simp add: run_classified_def empty_run_summary_def)
  have first: "map call_record (calls (snd (process_all_vehicles e w))) =
           map call_record (calls w) @ records \<and>
         (0 < retries e \<longrightarrow>
            set (posts (snd (process_all_vehicles e w))) =
              set (posts w) \<union> set (wires_of e records)) \<and>
         total_records (fst (process_all_vehicles e w)) = length records \<and>
         processed_successfully (fst (process_all_vehicles e w)) +
           failed_records (fst (process_all_vehicles e w)) +
           skipped_duplicates (fst (process_all_vehicles e w)) = length records \<and>
         length (filter is_failed_call (calls (snd (process_all_vehicles e w)))) =
           length (filter is_failed_call (calls w)) +
           failed_records (fst (process_all_vehicles e w)) \<and>
         length (errors (fst (process_all_vehicles e w))) =
           failed_records (fst (process_all_vehicles e w))"
    using c unfolding run by (simp add: run_classified_def)
  have second: "format_vehicle_data (to_float e) record_data = Inl exn \<longrightarrow>
            process_record e (record_id, record_data) (s, w0) =
              (s\<lparr>failed_records := failed_records s + 1,
                 errors := errors s @
                   [ascii ''Error inesperado procesando '' @ record_id @ ascii '': '' @ exn]\<rparr>,
               mark_failed e record_id record_data exn w0)"
    by (simp add: process_record_def)
  have third: "format_vehicle_data (to_float e) data2 = Inr formatted \<and>
          send_vehicle_data e formatted w2 = ((False, response, err), w3) \<and>
          \<not> is_duplicate_error err \<longrightarrow>
            process_record e (id2, data2) (s2, w2) =
              (s2\<lparr>failed_records := failed_records s2 + 1,
                  errors := errors s2 @
                    [ascii ''Error procesando '' @ id2 @ ascii '': '' @ str_error err]\<rparr>,
               sleep BetweenRecords (mark_failed e id2 data2 (error_or_unknown err) w3))"
    by (simp add: process_record_def)
  from first second third show ?thesis by blast
qed

theorem per_record_failures_do_not_abort_witness:
  "map call_record (calls (snd (process_all_vehicles (scripted_env ok_then_bad_request)
          (fresh_world (table_of [ford_lower, corolla, comma_limit]))))) =
     [(ascii ''T1_FORD_FOCUS_C1_F1'', ford_lower), (ascii ''T2_TOYOTA_COROLLA_C1_F1'', corolla),
      (ascii ''T3_FIAT_UNO_C1_F1'', comma_limit)] \<and>
   calls (snd (process_all_vehicles (scripted_env ok_then_bad_request)
          (fresh_world (table_of [ford_lower, corolla, comma_limit])))) =
     [MarkProcessed (ascii ''T1_FORD_FOCUS_C1_F1'') ford_lower,
      MarkFailed (ascii ''T2_TOYOTA_COROLLA_C1_F1'') corolla
        (ascii ''Error del cliente (400): bad request''),
      MarkFailed (ascii ''T3_FIAT_UNO_C1_F1'') comma_limit
        (ascii ''Error formateando datos de la fila: could not convert string to float: '' @
         [0x27] @ ascii ''12,5'' @ [0x27])] \<and>
   fst (process_all_vehicles (scripted_env ok_then_bad_request)
          (fresh_world (table_of [ford_lower, corolla, comma_limit]))) =
     \<lparr>processed_successfully = 1, failed_records = 2, skipped_duplicates = 0,
      errors =
        [ascii ''Error procesando T2_TOYOTA_COROLLA_C1_F1: Error del cliente (400): bad request'',
         ascii ''Error inesperado procesando T3_FIAT_UNO_C1_F1: Error formateando datos de la fila: could not convert string to float: '' @
         [0x27] @ ascii ''12,5'' @ [0x27]],
      total_records = 3\<rparr>"
proof -
  let ?e = "scripted_env ok_then_bad_request"
  let ?w = "fresh_world (table_of [ford_lower, corolla, comma_limit])"
  have un: "get_unprocessed_records (csv_path ?e) (csv ?w) (processed ?w) =
      Inr [(ascii ''T1_FORD_FOCUS_C1_F1'', ford_lower),
           (ascii ''T2_TOYOTA_COROLLA_C1_F1'', corolla),
           (ascii ''T3_FIAT_UNO_C1_F1'', comma_limit)]"
    by code_simp
  have bs: "0 < batch_size ?e"
    by (simp add: scripted_env_def)
  have t: "calls ?w = []"
    by (simp add: fresh_world_def)
  have k: "calls (snd (process_all_vehicles ?e ?w)) =
     [MarkProcessed (ascii ''T1_FORD_FOCUS_C1_F1'') ford_lower,
      MarkFailed (ascii ''T2_TOYOTA_COROLLA_C1_F1'') corolla
        (ascii ''Error del cliente (400): bad request''),
      MarkFailed (ascii ''T3_FIAT_UNO_C1_F1'') comma_limit
        (ascii ''Error formateando datos de la fila: could not convert string to float: '' @
         [0x27] @ ascii ''12,5'' @ [0x27])]"
    by code_simp
  have v: "fst (process_all_vehicles ?e ?w) =
     \<lparr>processed_successfully = 1, failed_records = 2, skipped_duplicates = 0,
      errors =
        [ascii ''Error procesando T2_TOYOTA_COROLLA_C1_F1: Error del cliente (400): bad request'',
         ascii ''Error inesperado procesando T3_FIAT_UNO_C1_F1: Error formateando datos de la fila: could not convert string to float: '' @
         [0x27] @ ascii ''12,5'' @ [0x27]],
      total_records = 3\<rparr>"
    by code_simp
  note th = per_record_failures_do_not_abort [OF un bs]
  have "map call_record (calls (snd (process_all_vehicles ?e ?w))) =
      map call_record (calls ?w) @
        [(ascii ''T1_FORD_FOCUS_C1_F1'', ford_lower),
         (ascii ''T2_TOYOTA_COROLLA_C1_F1'', corolla),
         (ascii ''T3_FIAT_UNO_C1_F1'', comma_limit)]"
    by (rule conjunct1 [OF th])
  then have m: "map call_record (calls (snd (process_all_vehicles ?e ?w))) =
        [(ascii ''T1_FORD_FOCUS_C1_F1'', ford_lower),
         (ascii ''T2_TOYOTA_COROLLA_C1_F1'', corolla),
         (ascii ''T3_FIAT_UNO_C1_F1'', comma_limit)]"
    unfolding t by simp
  from m k v show ?thesis by (intro conjI)
qed

lemma process_record_no_batch_pause:
  "filter (\<lambda>p. p = BetweenBatches) (sleeps (snd (process_record e rec st))) =
   filter (\<lambda>p. p = BetweenBatches) (sleeps (snd st))"
proof -
  obtain record_id record_data where r: "rec = (record_id, record_data)" by (cases rec)
  obtain summary w where s: "st = (summary, w)" by (cases st)
  show ?thesis
  proof (cases "format_vehicle_data (to_float e) record_data")
    case (Inl exn)
    then show ?thesis
      by (simp add: r s process_record_def mark_failed_def)
  next
    case (Inr formatted)
    obtain success response err w1 where sv: "send_vehicle_data e formatted w = ((success, response, err), w1)"
      by (metis prod.exhaust)
    have "filter (\<lambda>p. p = BetweenBatches) (sleeps w1) = filter (\<lambda>p. p = BetweenBatches) (sleeps w)"
      using send_vehicle_data_frame [OF sv] by (simp add: frame_def)
    then show ?thesis
      using Inr sv
      by (simp add: r s process_record_def mark_failed_def mark_processed_def sleep_def)
  qed
qed

lemma batch_loop_no_batch_pause:
  "filter (\<lambda>p. p = BetweenBatches) (sleeps (snd (batch_loop e batch st))) =
   filter (\<lambda>p. p = BetweenBatches) (sleeps (snd st))"
  by (induction batch arbitrary: st) (simp_all add: process_record_no_batch_pause)

lemma process_batch_no_batch_pause:
  "filter (\<lambda>p. p = BetweenBatches) (sleeps (snd (process_batch e batch w))) =
   filter (\<lambda>p. p = BetweenBatches) (sleeps w)"
  by (simp add: process_batch_def batch_loop_no_batch_pause)

text \<open>
  C8. A run over 25 unprocessed records with batch size 10 processes the first ten
  records, pauses, processes the next ten, pauses, and processes the last five, with no
  pause after them: exactly two pauses between batches, of one second each.
\<close>

theorem batch_pacing_25_by_10:
  assumes un: "get_unprocessed_records (csv_path e) (csv w) (processed w) = Inr records"
    and len: "length records = 25"
    and bs: "batch_size e = 10"
  shows "snd (process_all_vehicles e w) =
           snd (process_batch e (drop 20 records)
             (sleep BetweenBatches (snd (process_batch e (take 10 (drop 10 records))
               (sleep BetweenBatches (snd (process_batch e (take 10 records) w))))))) \<and>
         length (take 10 records) = 10 \<and> length (take 10 (drop 10 records)) = 10 \<and>
         length (drop 20 records) = 5 \<and>
         take 10 records @ take 10 (drop 10 records) @ drop 20 records = records \<and>
         length (filter (\<lambda>p. p = BetweenBatches) (sleeps (snd (process_all_vehicles e w)))) =
           length (filter (\<lambda>p. p = BetweenBatches) (sleeps w)) + 2 \<and>
         seconds BetweenBatches = 1"
proof -
  let ?start = "empty_run_summary\<lparr>total_records := length records\<rparr>"
  let ?r1 = "process_batch e (take 10 records) w"
  let ?w1 = "sleep BetweenBatches (snd ?r1)"
  let ?r2 = "process_batch e (take 10 (drop 10 records)) ?w1"
  let ?w2 = "sleep BetweenBatches (snd ?r2)"
  let ?r3 = "process_batch e (drop 20 records) ?w2"
  have ne: "records \<noteq> []" using len by auto
  have run: "process_all_vehicles e w = batches_from e records 0 (?start, w)"
    using un bs ne by (simp add: process_all_vehicles_def)
  have s1: "batches_from e records 0 (?start, w) =
      batches_from e records 10 (add_batch ?start (fst ?r1), ?w1)"
    using len bs by (subst batches_from.simps) (simp add: split: prod.splits)
  have s2: "batches_from e records 10 (add_batch ?start (fst ?r1), ?w1) =
      batches_from e records 20 (add_batch (add_batch ?start (fst ?r1)) (fst ?r2), ?w2)"
    using len bs by (subst batches_from.simps) (simp add: split: prod.splits)
  have t: "take 10 (drop 20 records) = drop 20 records" using len by simp
  have s3: "batches_from e records 20 (add_batch (add_batch ?start (fst ?r1)) (fst ?r2), ?w2) =
      batches_from e records 30
        (add_batch (add_batch (add_batch ?start (fst ?r1)) (fst ?r2)) (fst ?r3), snd ?r3)"
    using len bs by (subst batches_from.simps) (simp add: t split: prod.splits)
  have s4: "batches_from e records 30
        (add_batch (add_batch (add_batch ?start (fst ?r1)) (fst ?r2)) (fst ?r3), snd ?r3) =
      (add_batch (add_batch (add_batch ?start (fst ?r1)) (fst ?r2)) (fst ?r3), snd ?r3)"
    using len by (subst batches_from.simps) simp
  have final: "snd (process_all_vehicles e w) = snd ?r3"
    by (simp only: run s1 s2 s3 s4 snd_conv)
  have parts: "take 10 records @ take 10 (drop 10 records) @ drop 20 records = records"
    by (metis append_take_drop_id numeral_Bit0 append.assoc take_add)
  have count: "length (filter (\<lambda>p. p = BetweenBatches) (sleeps (snd ?r3))) =
      length (filter (\<lambda>p. p = BetweenBatches) (sleeps w)) + 2"
    by (simp add: process_batch_no_batch_pause sleep_def)
  show ?thesis
    using final parts count len by (simp add: seconds_def)
qed

theorem batch_pacing_25_by_10_witness:
  "length (filter (\<lambda>p. p = BetweenBatches)
     (sleeps (snd (process_all_vehicles (scripted_env (always (Response 200 (ascii ''ok'') None)))
        (fresh_world (table_of (map numbered_row [0..<25]))))))) = 2 \<and>
   length (take 10 (drop 10 (map (\<lambda>row. (create_record_id row, row)) (map numbered_row [0..<25])))) = 10"
proof -
  let ?e = "scripted_env (always (Response 200 (ascii ''ok'') None))"
  let ?w = "fresh_world (table_of (map numbered_row [0..<25]))"
  let ?records = "map (\<lambda>row. (create_record_id row, row)) (map numbered_row [0..<25])"
  have un: "get_unprocessed_records (csv_path ?e) (csv ?w) (processed ?w) = Inr ?records"
    by code_simp
  have len: "length ?records = 25"
    by simp
  have bs: "batch_size ?e = 10"
    by (simp add: scripted_env_def)
  have z: "sleeps ?w = []"
    by (simp add: fresh_world_def)
  note th = batch_pacing_25_by_10 [OF un len bs]
  from th have c: "length (filter (\<lambda>p. p = BetweenBatches) (sleeps (snd (process_all_vehicles ?e ?w)))) =
      length (filter (\<lambda>p. p = BetweenBatches) (sleeps ?w)) + 2"
    by (elim conjE)
  from th have m: "length (take 10 (drop 10 ?records)) = 10"
    by (elim conjE)
  have "length (filter (\<lambda>p. p = BetweenBatches) (sleeps (snd (process_all_vehicles ?e ?w)))) = 2"
    unfolding c z by simp
  with m show ?thesis by (intro conjI)
qed


section \<open>The status reporter: properties\<close>

lemma round_half_even_close:
  assumes "0 < d"
  shows "\<bar>of_int (round_half_even n d) - (of_int n / of_int d :: rat)\<bar> \<le> 1 / 2"
proof -
  define q where "q = n div d"
  define r where "r = n mod d"
  have n: "n = q * d + r" by (simp add: q_def r_def)
  have r: "0 \<le> r" "r < d" using assms by (simp_all add: r_def)
  have dpos: "(0::rat) < of_int d" using assms by simp
  have quot: "(of_int n / of_int d :: rat) = of_int q + of_int r / of_int d"
    using dpos by (simp add: n field_simps)
  have r0: "(0::rat) \<le> of_int r / of_int d" using r dpos by simp
  consider "2 * r < d" | "d < 2 * r" | "2 * r = d" by linarith
  then show ?thesis
  proof cases
    case 1
    then have "(of_int r / of_int d :: rat) < 1 / 2"
      using dpos by (simp add: field_simps)
    moreover have "round_half_even n d = q"
      using 1 by (simp add: round_half_even_def q_def r_def Let_def)
    ultimately show ?thesis using r0 by (simp add: quot)
  next
    case 2
    then have "(1 / 2 :: rat) < of_int r / of_int d"
      using dpos by (simp add: field_simps)
    moreover have "(of_int r / of_int d :: rat) < 1"
      using r dpos by simp
    moreover have "round_half_even n d = q + 1"
      using 2 by (simp add: round_half_even_def q_def r_def Let_def)
    ultimately show ?thesis by (simp add: quot)
  next
    case 3
    then have h: "(of_int r / of_int d :: rat) = 1 / 2"
      using dpos by (simp add: field_simps)
    have "round_half_even n d = q \<or> round_half_even n d = q + 1"
      by (simp add: round_half_even_def q_def r_def Let_def)
    then show ?thesis
    proof
      assume e: "round_half_even n d = q"
      show ?thesis unfolding e quot h by simp
    next
      assume e: "round_half_even n d = q + 1"
      show ?thesis unfolding e quot h by simp
    qed
  qed
qed

lemma py_round2_close:
  "\<exists>k. py_round2 x = nearest_double k 100 \<and> \<bar>of_int k / 100 - x\<bar> \<le> 1 / 200"
proof -
  obtain n d where q: "quotient_of (x * 100) = (n, d)" by (cases "quotient_of (x * 100)")
  have d: "0 < d" using q by (rule quotient_of_denom_pos)
  have v: "x * 100 = of_int n / of_int d" using q by (rule quotient_of_div)
  let ?k = "round_half_even n d"
  have "\<bar>of_int ?k - x * 100\<bar> \<le> 1 / 2"
    using round_half_even_close [OF d, of n] by (simp add: v)
  then have "\<bar>of_int ?k / 100 - x\<bar> \<le> 1 / 200"
    by (simp add: field_simps abs_if split: if_splits)
  moreover have "py_round2 x = nearest_double ?k 100"
    by (simp add: py_round2_def q)
  ultimately show ?thesis by blast
qed

text \<open>
  C9. When the CSV loads, \<open>get_processing_status\<close> reports the number of rows, the
  number of processed ids, the number of pending rows, and as completion percentage
  \<open>round(processed / total * 100, 2)\<close> for a positive total and 0 for a total of 0. The
  rounded value is the double nearest to a multiple of 1/100 that lies within 1/200 of the
  product: 4 processed of 10 gives 40, 1 of 3 the double written 33.33, 23 of 160 the
  double written 14.37. When the CSV does not load, it returns the status with the error
  text and every count 0.
\<close>

theorem get_processing_status_spec:
  "(load_csv_data (csv_path e) (csv w) = Inr df \<longrightarrow>
      get_processing_status e w =
        \<lparr>st_error = None,
         st_total_records = length df,
         st_processed_records = length (get_processed_records (processed w)),
         st_pending_records = length (unprocessed_rows (get_processed_records (processed w)) df),
         st_completion_percentage =
           (if 0 < length df
            then py_round2
                   (float_mul (float_div (length (get_processed_records (processed w)))
                      (length df)) 100)
            else 0)\<rparr>) \<and>
   (load_csv_data (csv_path e) (csv w) = Inl exn \<longrightarrow>
      get_processing_status e w =
        \<lparr>st_error = Some (error_text exn), st_total_records = 0, st_processed_records = 0,
         st_pending_records = 0, st_completion_percentage = 0\<rparr>) \<and>
   py_round2 (float_mul (float_div 4 10) 100) = 40 \<and>
   py_round2 (float_mul (float_div 1 3) 100) = 2345390243441541 / 70368744177664 \<and>
   py_round2 (float_mul (float_div 23 160) 100) = 8089590830664253 / 562949953421312 \<and>
   (\<exists>k. py_round2 x = nearest_double k 100 \<and> \<bar>of_int k / 100 - x\<bar> \<le> 1 / 200)"
proof -
  have a: "py_round2 (float_mul (float_div 4 10) 100) = 40"
    by code_simp
  have b: "py_round2 (float_mul (float_div 1 3) 100) = 2345390243441541 / 70368744177664"
    by code_simp
  have c: "py_round2 (float_mul (float_div 23 160) 100) = 8089590830664253 / 562949953421312"
    by code_simp
  have s: "(load_csv_data (csv_path e) (csv w) = Inr df \<longrightarrow>
      get_processing_status e w =
        \<lparr>st_error = None,
         st_total_records = length df,
         st_processed_records = length (get_processed_records (processed w)),
         st_pending_records = length (unprocessed_rows (get_processed_records (processed w)) df),
         st_completion_percentage =
           (if 0 < length df
            then py_round2
                   (float_mul (float_div (length (get_processed_records (processed w)))
                      (length df)) 100)
            else 0)\<rparr>) \<and>
   (load_csv_data (csv_path e) (csv w) = Inl exn \<longrightarrow>
      get_processing_status e w =
        \<lparr>st_error = Some (error_text exn), st_total_records = 0, st_processed_records = 0,
         st_pending_records = 0, st_completion_percentage = 0\<rparr>)"
    by (simp add: get_processing_status_def get_unprocessed_records_def error_status_def Let_def)
  from s a b c py_round2_close [of x] show ?thesis by (intro conjI) blast+
qed

theorem get_processing_status_spec_witness:
  "get_processing_status (scripted_env (always (Response 200 (ascii ''ok'') None)))
     ((fresh_world (table_of (map numbered_row [0..<10])))\<lparr>processed := four_marked\<rparr>) =
     \<lparr>st_error = None, st_total_records = 10, st_processed_records = 4, st_pending_records = 6,
      st_completion_percentage = 40\<rparr> \<and>
   get_processing_status (scripted_env (always (Response 200 (ascii ''ok'') None)))
     ((fresh_world (table_of (map numbered_row [0..<3])))\<lparr>processed := one_marked\<rparr>) =
     \<lparr>st_error = None, st_total_records = 3, st_processed_records = 1, st_pending_records = 2,
      st_completion_percentage = 2345390243441541 / 70368744177664\<rparr> \<and>
   get_processing_status (scripted_env (always (Response 200 (ascii ''ok'') None)))
     (fresh_world (table_of [])) =
     \<lparr>st_error = None, st_total_records = 0, st_processed_records = 0, st_pending_records = 0,
      st_completion_percentage = 0\<rparr> \<and>
   get_processing_status (scripted_env (always (Response 200 (ascii ''ok'') None)))
     (fresh_world NoCsvFile) =
     \<lparr>st_error = Some (ascii ''Archivo CSV no encontrado: clases_vehiculos.csv''),
      st_total_records = 0, st_processed_records = 0, st_pending_records = 0,
      st_completion_percentage = 0\<rparr>"
proof -
  let ?e = "scripted_env (always (Response 200 (ascii ''ok'') None))"
  let ?w = "(fresh_world (table_of (map numbered_row [0..<10])))\<lparr>processed := four_marked\<rparr>"
  let ?v = "(fresh_world (table_of (map numbered_row [0..<3])))\<lparr>processed := one_marked\<rparr>"
  have l10: "load_csv_data (csv_path ?e) (csv ?w) = Inr (map numbered_row [0..<10])"
    by code_simp
  have ids: "get_processed_records (processed ?w) = map (create_record_id \<circ> numbered_row) [0..<4]"
    by code_simp
  have pend: "length (unprocessed_rows (map (create_record_id \<circ> numbered_row) [0..<4])
      (map numbered_row [0..<10])) = 6"
    by code_simp
  have l3: "load_csv_data (csv_path ?e) (csv ?v) = Inr (map numbered_row [0..<3])"
    by code_simp
  have ids3: "get_processed_records (processed ?v) = [create_record_id (numbered_row 0)]"
    by code_simp
  have pend3: "length (unprocessed_rows [create_record_id (numbered_row 0)]
      (map numbered_row [0..<3])) = 2"
    by code_simp
  have l0: "load_csv_data (csv_path ?e) (csv (fresh_world (table_of []))) = Inr []"
    by code_simp
  have p0: "get_processed_records (processed (fresh_world (table_of []))) = []"
    by code_simp
  have lm: "load_csv_data (csv_path ?e) (csv (fresh_world NoCsvFile)) =
      Inl (FileNotFound (ascii ''clases_vehiculos.csv''))"
    by code_simp
  have et: "error_text (FileNotFound (ascii ''clases_vehiculos.csv'')) =
      ascii ''Archivo CSV no encontrado: clases_vehiculos.csv''"
    by code_simp
  note t10 = get_processing_status_spec [of ?e ?w "map numbered_row [0..<10]" undefined 0]
  note t3 = get_processing_status_spec [of ?e ?v "map numbered_row [0..<3]" undefined 0]
  note t0 = get_processing_status_spec [of ?e "fresh_world (table_of [])" "[]" undefined 0]
  note tm = get_processing_status_spec
    [of ?e "fresh_world NoCsvFile" "[]" "FileNotFound (ascii ''clases_vehiculos.csv'')" 0]
  have a: "get_processing_status ?e ?w =
     \<lparr>st_error = None, st_total_records = 10, st_processed_records = 4, st_pending_records = 6,
      st_completion_percentage = 40\<rparr>"
    using t10 l10 ids pend by simp
  have b: "get_processing_status ?e ?v =
     \<lparr>st_error = None, st_total_records = 3, st_processed_records = 1, st_pending_records = 2,
      st_completion_percentage = 2345390243441541 / 70368744177664\<rparr>"
    using t3 l3 ids3 pend3 by simp
  have c: "get_processing_status ?e (fresh_world (table_of [])) =
     \<lparr>st_error = None, st_total_records = 0, st_processed_records = 0, st_pending_records = 0,
      st_completion_percentage = 0\<rparr>"
    using t0 l0 p0 by simp
  have d: "get_processing_status ?e (fresh_world NoCsvFile) =
     \<lparr>st_error = Some (ascii ''Archivo CSV no encontrado: clases_vehiculos.csv''),
      st_total_records = 0, st_processed_records = 0, st_pending_records = 0,
      st_completion_percentage = 0\<rparr>"
    using tm lm et by simp
  from a b c d show ?thesis by (intro conjI)
qed

end
